theory Spec2Isabelle
  imports Complex_Main
begin

section \<open>GemQuest: the world model and the simulation step of \<open>main.c\<close>\<close>

text \<open>
  The game logic of \<open>main.c\<close> (from the enum \<open>ItemState\<close> to \<open>Game_onUpdate\<close>) as
  HOL functions. The C globals become the fields of the record \<open>game\<close>; the three
  globals that describe the labyrinth (\<open>mapWidth\<close>, \<open>mapDepth\<close>, \<open>map\<close>) become the
  record \<open>world\<close>, and \<open>gameMap\<close> is the labyrinth compiled into the program.

  Conventions of the embedding:
  \<^item> A C \<open>float\<close> is a \<open>real\<close>: every arithmetic operation is taken exactly, without the
    rounding of binary32, and there is no NaN or infinity. Where the rounding decides
    an outcome (the time at which the fade-in reaches 1), the computation is repeated
    with the rounding written out (\<open>binary32\<close>, \<open>fade_in_binary32\<close>).
  \<^item> A C \<open>int\<close> is an \<open>int\<close>; the one place where a value is forced into 32 bits, the
    cast \<open>(int)roundf(..)\<close>, is \<open>float_to_int\<close> with the out-of-range case written out.
  \<^item> \<open>Common_terminate\<close> (which prints and calls \<open>exit(1)\<close>) is the result
    \<open>Inl Terminated\<close>; a read outside the array \<open>map\<close> and an out-of-range cast are
    undefined in C and are the result \<open>Inl UndefinedBehaviour\<close>.
  \<^item> The calls into OpenGL and GLUT are left out, except \<open>glutLeaveMainLoop\<close>, which
    is the flag \<open>mainLoopLeft\<close>, and \<open>glutGet(GLUT_ELAPSED_TIME)\<close>, whose value is an
    argument of the function that reads it.
\<close>

subsection \<open>Enumerations and constants\<close>

datatype ItemState = Initial | Held | Dropped

datatype Field = Init | Arch | Tile | Wall | Item | Goal

text \<open>The integer value the C enum gives each field type.\<close>

fun Field_value :: "Field \<Rightarrow> int" where
  "Field_value Init = -2"
| "Field_value Arch = -1"
| "Field_value Tile = 0"
| "Field_value Wall = 1"
| "Field_value Item = 2"
| "Field_value Goal = 3"

datatype error = Terminated | UndefinedBehaviour

definition PI :: real where "PI = 31415926 / 10000000"
definition CALCULATION_TRESHOLD :: real where "CALCULATION_TRESHOLD = 1 / 100"
definition PLAYER_MAX_SPEED :: real where "PLAYER_MAX_SPEED = 2 / 10"
definition PLAYER_JUMP_SPEED :: real where "PLAYER_JUMP_SPEED = 18 / 10"
definition PLAYER_FRICTION :: real where "PLAYER_FRICTION = 5"
definition PLAYER_GRAVITY :: real where "PLAYER_GRAVITY = 8 / 100"
definition ITEM_ROTATION_SPEED :: real where "ITEM_ROTATION_SPEED = 45"
definition FADEOUT_SPEED :: real where "FADEOUT_SPEED = 5 / 10"
definition FLOOR_BOUNCYNESS :: real where "FLOOR_BOUNCYNESS = 25 / 100"
definition MOUSE_SPEED :: real where "MOUSE_SPEED = 175 / 100"
definition MOUSE_FRICTION :: real where "MOUSE_FRICTION = 75 / 10"

text \<open>The macros \<open>MIN(a,b) = ((a)<(b))?(a):(b)\<close> and \<open>MAX(a,b) = ((a)>(b))?(a):(b)\<close>.\<close>

definition MIN_macro :: "real \<Rightarrow> real \<Rightarrow> real" where
  "MIN_macro a b = (if a < b then a else b)"

definition MAX_macro :: "real \<Rightarrow> real \<Rightarrow> real" where
  "MAX_macro a b = (if a > b then a else b)"

definition Common_degToRad :: "real \<Rightarrow> real" where
  "Common_degToRad deg = deg * (PI / 180)"

subsection \<open>The labyrinth\<close>

record world =
  mapWidth :: int
  mapDepth :: int
  mapFields :: "Field list"

definition gameMap :: world where
  "gameMap = \<lparr> mapWidth = 15, mapDepth = 11, mapFields =
  [Wall, Wall, Wall, Wall, Wall, Wall, Wall, Wall, Wall, Wall, Wall,
   Wall, Tile, Tile, Tile, Tile, Wall, Tile, Tile, Tile, Tile, Wall,
   Wall, Tile, Wall, Wall, Wall, Wall, Wall, Wall, Wall, Tile, Wall,
   Wall, Tile, Tile, Tile, Tile, Tile, Tile, Tile, Wall, Tile, Wall,
   Wall, Wall, Wall, Wall, Wall, Tile, Wall, Wall, Wall, Tile, Wall,
   Wall, Tile, Goal, Tile, Wall, Tile, Wall, Tile, Wall, Tile, Wall,
   Wall, Tile, Tile, Tile, Wall, Tile, Wall, Tile, Tile, Tile, Wall,
   Wall, Init, Tile, Tile, Arch, Tile, Wall, Tile, Wall, Tile, Wall,
   Wall, Tile, Tile, Tile, Wall, Tile, Tile, Tile, Wall, Tile, Wall,
   Wall, Tile, Tile, Tile, Wall, Wall, Wall, Wall, Wall, Tile, Wall,
   Wall, Wall, Wall, Wall, Wall, Tile, Tile, Tile, Tile, Tile, Wall,
   Wall, Tile, Tile, Tile, Tile, Tile, Wall, Wall, Wall, Wall, Wall,
   Wall, Tile, Wall, Wall, Wall, Wall, Wall, Tile, Tile, Item, Wall,
   Wall, Tile, Tile, Tile, Tile, Tile, Tile, Tile, Wall, Wall, Wall,
   Wall, Wall, Wall, Wall, Wall, Wall, Wall, Wall, Wall, Wall, Wall] \<rparr>"

text \<open>
  \<open>map[i]\<close>: the element when \<open>i\<close> is an index of the array, undefined behaviour
  otherwise.
\<close>

definition map_read :: "world \<Rightarrow> int \<Rightarrow> error + Field" where
  "map_read w i =
     (if 0 \<le> i \<and> i < int (length (mapFields w)) then Inr (mapFields w ! nat i)
      else Inl UndefinedBehaviour)"

text \<open>
  Modelled from the spec: \<open>roundf\<close> is a function of the C library, not of this
  repository. The specification (4.1) says that the original rounds to the nearest
  index with ties away from zero, which is the rule the C standard gives \<open>roundf\<close>:
  the nearest integer, halfway cases away from zero.
\<close>

definition roundf :: "real \<Rightarrow> real" where
  "roundf x = (if 0 \<le> x then of_int \<lfloor>x + 1 / 2\<rfloor> else - of_int \<lfloor>- x + 1 / 2\<rfloor>)"

text \<open>
  The cast \<open>(int)\<close> of a \<open>float\<close> truncates toward zero and is undefined when the result
  is not a value of a 32-bit \<open>int\<close>.
\<close>

definition float_to_int :: "real \<Rightarrow> error + int" where
  "float_to_int r =
     (let t = (if 0 \<le> r then \<lfloor>r\<rfloor> else \<lceil>r\<rceil>)
      in if - 2147483648 \<le> t \<and> t \<le> 2147483647 then Inr t else Inl UndefinedBehaviour)"

definition Game_getMapFieldIndiciesByPosition :: "real \<Rightarrow> real \<Rightarrow> error + int \<times> int" where
  "Game_getMapFieldIndiciesByPosition positionX positionZ =
     (case float_to_int (roundf positionX) of
        Inl e \<Rightarrow> Inl e
      | Inr indexX \<Rightarrow>
          (case float_to_int (roundf positionZ) of
             Inl e \<Rightarrow> Inl e
           | Inr indexZ \<Rightarrow> Inr (indexX, indexZ)))"

definition Game_getMapFieldPositionByIndicies :: "int \<Rightarrow> int \<Rightarrow> real \<times> real" where
  "Game_getMapFieldPositionByIndicies indexX indexZ = (of_int indexX, of_int indexZ)"

definition Game_getMapFieldByIndicies :: "world \<Rightarrow> int \<Rightarrow> int \<Rightarrow> error + Field" where
  "Game_getMapFieldByIndicies w x z =
     (if x < 0 \<or> x > mapWidth w \<or> z < 0 \<or> z > mapDepth w then Inl Terminated
      else map_read w (x * mapDepth w + z))"

definition Game_getMapFieldByPosition :: "world \<Rightarrow> real \<Rightarrow> real \<Rightarrow> error + Field" where
  "Game_getMapFieldByPosition w x z =
     (case Game_getMapFieldIndiciesByPosition x z of
        Inl e \<Rightarrow> Inl e
      | Inr (indexX, indexZ) \<Rightarrow> map_read w (indexX * mapDepth w + indexZ))"

subsection \<open>The game state\<close>

text \<open>
  The global variables of the game logic. \<open>mainLoopLeft\<close> records that
  \<open>glutLeaveMainLoop\<close> was called: the main loop returns after the running callback, and
  no further callback runs.
\<close>

record game =
  isLoaded :: bool
  mainLoopLeft :: bool
  inputForward :: bool
  inputRight :: bool
  inputBackwards :: bool
  inputLeft :: bool
  inputJump :: bool
  inputAction :: bool
  currentMouseX :: real
  currentMouseY :: real
  playerX :: real
  playerY :: real
  playerZ :: real
  playerAccerlationX :: real
  playerAccerlationY :: real
  playerAccerlationZ :: real
  playerRotationY :: real
  playerRotationX :: real
  playerRotationAccerlationY :: real
  playerRotationAccerlationX :: real
  itemRotationY :: real
  itemState :: ItemState
  gameBrightness :: real
  lastUpdateTime :: int
  currentTimeMs :: real
  currentWindowWidth :: int
  currentWindowHeight :: int

text \<open>The initialisers of the globals (a global without one starts at zero).\<close>

definition initialGame :: game where
  "initialGame = \<lparr> isLoaded = False, mainLoopLeft = False,
     inputForward = False, inputRight = False, inputBackwards = False,
     inputLeft = False, inputJump = False, inputAction = False,
     currentMouseX = 0, currentMouseY = 0,
     playerX = 0, playerY = 0, playerZ = 0,
     playerAccerlationX = 0, playerAccerlationY = 0, playerAccerlationZ = 0,
     playerRotationY = 0, playerRotationX = 0,
     playerRotationAccerlationY = 0, playerRotationAccerlationX = 0,
     itemRotationY = 0, itemState = Initial, gameBrightness = 0,
     lastUpdateTime = 0, currentTimeMs = 0,
     currentWindowWidth = 0, currentWindowHeight = 0 \<rparr>"

subsection \<open>Loading and the input callbacks\<close>

text \<open>
  The two nested \<open>for\<close> loops of \<open>Game_onLoad\<close> that look for the spawn point: both
  stop as soon as \<open>spawnPointFound\<close> is set, and the decrements in the body undo the
  increments that follow, so the loops end with the indices of the first \<open>Init\<close> field
  in the order of the scan.
\<close>

fun spawnScanZ :: "world \<Rightarrow> int \<Rightarrow> int list \<Rightarrow> error + int option" where
  "spawnScanZ w spawnX [] = Inr None"
| "spawnScanZ w spawnX (spawnZ # zs) =
     (case Game_getMapFieldByIndicies w spawnX spawnZ of
        Inl e \<Rightarrow> Inl e
      | Inr f \<Rightarrow> if f = Init then Inr (Some spawnZ) else spawnScanZ w spawnX zs)"

fun spawnScanX :: "world \<Rightarrow> int list \<Rightarrow> error + (int \<times> int) option" where
  "spawnScanX w [] = Inr None"
| "spawnScanX w (spawnX # xs) =
     (case spawnScanZ w spawnX [0..mapDepth w - 1] of
        Inl e \<Rightarrow> Inl e
      | Inr (Some spawnZ) \<Rightarrow> Inr (Some (spawnX, spawnZ))
      | Inr None \<Rightarrow> spawnScanX w xs)"

text \<open>
  \<open>Game_onLoad\<close>; \<open>t\<close> is the value of \<open>glutGet(GLUT_ELAPSED_TIME)\<close>. The creation of
  the shader program and of the meshes is taken to succeed.
\<close>

definition Game_onLoad :: "world \<Rightarrow> int \<Rightarrow> game \<Rightarrow> error + game" where
  "Game_onLoad w t s =
     (if isLoaded s then Inl Terminated
      else if int (length (mapFields w)) \<noteq> mapWidth w * mapDepth w then Inl Terminated
      else
        (case spawnScanX w [0..mapWidth w - 1] of
           Inl e \<Rightarrow> Inl e
         | Inr None \<Rightarrow> Inl Terminated
         | Inr (Some (spawnX, spawnZ)) \<Rightarrow>
             (case Game_getMapFieldPositionByIndicies spawnX spawnZ of
                (positionX, positionZ) \<Rightarrow>
                  Inr (s\<lparr>lastUpdateTime := t, playerX := positionX, playerZ := positionZ,
                        isLoaded := True\<rparr>))))"

definition Game_onDestroy :: "game \<Rightarrow> game" where
  "Game_onDestroy s = (if isLoaded s then s\<lparr>mainLoopLeft := True\<rparr> else s)"

definition Game_onResize :: "int \<Rightarrow> int \<Rightarrow> game \<Rightarrow> game" where
  "Game_onResize newWidth newHeight s =
     s\<lparr>currentWindowWidth := newWidth, currentWindowHeight := newHeight\<rparr>"

definition Game_onKeyboardDown :: "char \<Rightarrow> game \<Rightarrow> game" where
  "Game_onKeyboardDown key s =
     (if key = CHR ''w'' then s\<lparr>inputForward := True\<rparr>
      else if key = CHR ''s'' then s\<lparr>inputBackwards := True\<rparr>
      else if key = CHR ''a'' then s\<lparr>inputLeft := True\<rparr>
      else if key = CHR ''d'' then s\<lparr>inputRight := True\<rparr>
      else if key = CHR '' '' then s\<lparr>inputJump := True\<rparr>
      else if key = CHR ''e'' then s\<lparr>inputAction := True\<rparr>
      else if key = CHR 0x1B then Game_onDestroy s
      else s)"

definition Game_onKeyboardUp :: "char \<Rightarrow> game \<Rightarrow> game" where
  "Game_onKeyboardUp key s =
     (if key = CHR ''w'' then s\<lparr>inputForward := False\<rparr>
      else if key = CHR ''s'' then s\<lparr>inputBackwards := False\<rparr>
      else if key = CHR ''a'' then s\<lparr>inputLeft := False\<rparr>
      else if key = CHR ''d'' then s\<lparr>inputRight := False\<rparr>
      else if key = CHR '' '' then s\<lparr>inputJump := False\<rparr>
      else if key = CHR ''e'' then s\<lparr>inputAction := False\<rparr>
      else s)"

definition Game_onMouseMove :: "int \<Rightarrow> int \<Rightarrow> game \<Rightarrow> game" where
  "Game_onMouseMove mouseX mouseY s =
     s\<lparr>currentMouseX := of_int mouseX, currentMouseY := of_int mouseY\<rparr>"

subsection \<open>The simulation step\<close>

text \<open>
  \<open>Game_onUpdate\<close> is one C function; it is cut here into its consecutive blocks, each
  a function on the state, in the order of the source.
\<close>

text \<open>The remainder of C's \<open>%\<close>, which truncates toward zero.\<close>

definition c_rem :: "int \<Rightarrow> int \<Rightarrow> int" where
  "c_rem a b = sgn a * (\<bar>a\<bar> mod \<bar>b\<bar>)"

text \<open>Fade in while the item is at its place, fade out once it is dropped.\<close>

definition update_brightness :: "real \<Rightarrow> game \<Rightarrow> game" where
  "update_brightness deltaSeconds s =
     (if itemState s = Initial \<and> gameBrightness s < 1 then
        s\<lparr>gameBrightness := MIN_macro 1 (gameBrightness s + FADEOUT_SPEED * deltaSeconds)\<rparr>
      else if itemState s = Dropped then
        (if gameBrightness s > 0 then
           s\<lparr>gameBrightness := gameBrightness s - FADEOUT_SPEED * deltaSeconds\<rparr>
         else Game_onDestroy s)
      else s)"

text \<open>The mouse look.\<close>

definition update_rotation :: "real \<Rightarrow> game \<Rightarrow> game" where
  "update_rotation deltaSeconds s =
     (let capturedMouseX = of_int (currentWindowWidth s) / 2;
          capturedMouseY = of_int (currentWindowHeight s) / 2;
          mouseSpeedX = (capturedMouseX - currentMouseX s) * gameBrightness s;
          mouseSpeedY = (capturedMouseY - currentMouseY s) * gameBrightness s;
          rax = playerRotationAccerlationX s + mouseSpeedY * MOUSE_SPEED * deltaSeconds;
          ray = playerRotationAccerlationY s + mouseSpeedX * MOUSE_SPEED * deltaSeconds;
          rax' = rax - rax * MOUSE_FRICTION * deltaSeconds;
          ray' = ray - ray * MOUSE_FRICTION * deltaSeconds
      in s\<lparr>playerRotationAccerlationX := rax', playerRotationAccerlationY := ray',
            playerRotationX := playerRotationX s + rax',
            playerRotationY := playerRotationY s + ray'\<rparr>)"

text \<open>
  The raw acceleration of the keyboard input, normalised when it is longer than 1
  (\<open>newAxisAccerlationX\<close>, \<open>newAxisAccerlationZ\<close> after the \<open>if\<close>).
\<close>

definition newAxisAccerlation :: "game \<Rightarrow> real \<times> real" where
  "newAxisAccerlation s =
     (let newAxisAccerlationX =
            (if inputRight s then 1 else 0) - (if inputLeft s then 1 else 0);
          newAxisAccerlationZ =
            (if inputForward s then 1 else 0) - (if inputBackwards s then 1 else 0);
          n = sqrt (newAxisAccerlationX ^ 2 + newAxisAccerlationZ ^ 2)
      in if \<bar>n\<bar> > 1 then (newAxisAccerlationX / n, newAxisAccerlationZ / n)
         else (newAxisAccerlationX, newAxisAccerlationZ))"

text \<open>
  The raw acceleration rotated by the player's rotation around the Y axis
  (\<open>newAccerlationX\<close>, \<open>newAccerlationZ\<close>).
\<close>

definition newAccerlation :: "game \<Rightarrow> real \<times> real" where
  "newAccerlation s =
     (case newAxisAccerlation s of
        (newAxisAccerlationX, newAxisAccerlationZ) \<Rightarrow>
          (let playerRotationYSin = sin (Common_degToRad (playerRotationY s));
               playerRotationYCos = cos (Common_degToRad (playerRotationY s))
           in (newAxisAccerlationX * playerRotationYCos
                 - newAxisAccerlationZ * playerRotationYSin,
               newAxisAccerlationZ * playerRotationYCos
                 + newAxisAccerlationX * playerRotationYSin)))"

definition update_accerlation :: "real \<Rightarrow> game \<Rightarrow> game" where
  "update_accerlation deltaSeconds s =
     (case newAccerlation s of
        (newAccerlationX, newAccerlationZ) \<Rightarrow>
          s\<lparr>playerAccerlationX :=
               playerAccerlationX s + newAccerlationX * (deltaSeconds * PLAYER_MAX_SPEED),
            playerAccerlationZ :=
               playerAccerlationZ s + newAccerlationZ * (deltaSeconds * PLAYER_MAX_SPEED)\<rparr>)"

text \<open>Gravity, jump and bounce.\<close>

definition update_vertical :: "real \<Rightarrow> game \<Rightarrow> game" where
  "update_vertical deltaSeconds s =
     (if playerY s > CALCULATION_TRESHOLD then
        s\<lparr>playerAccerlationY := playerAccerlationY s - PLAYER_GRAVITY * deltaSeconds\<rparr>
      else if inputJump s then
        s\<lparr>playerAccerlationY := PLAYER_JUMP_SPEED * deltaSeconds\<rparr>
      else if \<bar>playerAccerlationY s\<bar> > CALCULATION_TRESHOLD then
        s\<lparr>playerAccerlationY := - playerAccerlationY s * FLOOR_BOUNCYNESS\<rparr>
      else s\<lparr>playerAccerlationY := 0\<rparr>)"

definition update_friction :: "real \<Rightarrow> game \<Rightarrow> game" where
  "update_friction deltaSeconds s =
     s\<lparr>playerAccerlationX :=
         playerAccerlationX s - playerAccerlationX s * (deltaSeconds * PLAYER_FRICTION),
       playerAccerlationZ :=
         playerAccerlationZ s - playerAccerlationZ s * (deltaSeconds * PLAYER_FRICTION)\<rparr>"

text \<open>The new position, checked against the field it falls on.\<close>

definition update_position :: "world \<Rightarrow> game \<Rightarrow> error + game" where
  "update_position w s =
     (let newPlayerX = playerX s + playerAccerlationX s;
          newPlayerY = MAX_macro 0 (playerY s + playerAccerlationY s);
          newPlayerZ = playerZ s + playerAccerlationZ s
      in case Game_getMapFieldByPosition w newPlayerX newPlayerZ of
           Inl e \<Rightarrow> Inl e
         | Inr newPlayerField \<Rightarrow>
             if Field_value newPlayerField \<le> 0 then
               Inr (s\<lparr>playerX := newPlayerX, playerZ := newPlayerZ, playerY := newPlayerY\<rparr>)
             else
               Inr (s\<lparr>playerAccerlationX := - playerAccerlationX s,
                      playerAccerlationZ := - playerAccerlationZ s,
                      playerX := playerX s + (- playerAccerlationX s),
                      playerZ := playerZ s + (- playerAccerlationZ s),
                      playerY := newPlayerY\<rparr>))"

text \<open>
  The body of the two probing loops for one probed field, and the loops themselves as
  a recursion over the probed indices in the order of the loops.
\<close>

definition probe :: "Field \<Rightarrow> ItemState \<Rightarrow> ItemState" where
  "probe probedField st =
     (if probedField = Item \<and> st = Initial then Held
      else if probedField = Goal \<and> st = Held then Dropped
      else st)"

fun probeFields :: "world \<Rightarrow> (int \<times> int) list \<Rightarrow> ItemState \<Rightarrow> error + ItemState" where
  "probeFields w [] st = Inr st"
| "probeFields w ((probeFieldX, probeFieldZ) # ps) st =
     (case Game_getMapFieldByIndicies w probeFieldX probeFieldZ of
        Inl e \<Rightarrow> Inl e
      | Inr probedField \<Rightarrow> probeFields w ps (probe probedField st))"

definition probedIndices :: "int \<Rightarrow> int \<Rightarrow> (int \<times> int) list" where
  "probedIndices currentPlayerFieldX currentPlayerFieldZ =
     concat (map (\<lambda>probeFieldX.
                map (\<lambda>probeFieldZ. (probeFieldX, probeFieldZ))
                  [currentPlayerFieldZ - 1 .. currentPlayerFieldZ + 1])
              [currentPlayerFieldX - 1 .. currentPlayerFieldX + 1])"

text \<open>
  The interaction. The loops start at \<open>currentPlayerField - 1\<close>, which overflows (and
  is undefined) at the least \<open>int\<close>.
\<close>

definition update_interaction :: "world \<Rightarrow> game \<Rightarrow> error + game" where
  "update_interaction w s =
     (if inputAction s then
        (case Game_getMapFieldIndiciesByPosition (playerX s) (playerZ s) of
           Inl e \<Rightarrow> Inl e
         | Inr (currentPlayerFieldX, currentPlayerFieldZ) \<Rightarrow>
             if currentPlayerFieldX = - 2147483648 \<or> currentPlayerFieldZ = - 2147483648
             then Inl UndefinedBehaviour
             else
               (case probeFields w (probedIndices currentPlayerFieldX currentPlayerFieldZ)
                       (itemState s) of
                  Inl e \<Rightarrow> Inl e
                | Inr st \<Rightarrow> Inr (s\<lparr>itemState := st\<rparr>)))
      else Inr s)"

text \<open>
  \<open>Game_onUpdate\<close>; \<open>currentUpdateTime\<close> is the value of
  \<open>glutGet(GLUT_ELAPSED_TIME)\<close>, in milliseconds.
\<close>

definition deltaSeconds_of :: "int \<Rightarrow> game \<Rightarrow> real" where
  "deltaSeconds_of currentUpdateTime s = of_int (currentUpdateTime - lastUpdateTime s) / 1000"

definition update_animation :: "int \<Rightarrow> real \<Rightarrow> game \<Rightarrow> game" where
  "update_animation currentUpdateTime deltaSeconds s =
     s\<lparr>currentTimeMs := of_int (c_rem currentUpdateTime 1000),
       itemRotationY := itemRotationY s + deltaSeconds * ITEM_ROTATION_SPEED\<rparr>"

definition update_motion :: "real \<Rightarrow> game \<Rightarrow> game" where
  "update_motion deltaSeconds s =
     update_friction deltaSeconds
       (update_vertical deltaSeconds
         (update_accerlation deltaSeconds
           (update_rotation deltaSeconds s)))"

text \<open>The blocks of \<open>Game_onUpdate\<close> before the computation of the new position.\<close>

definition before_collision :: "int \<Rightarrow> game \<Rightarrow> game" where
  "before_collision currentUpdateTime s =
     (let deltaSeconds = deltaSeconds_of currentUpdateTime s
      in update_motion deltaSeconds
           (update_brightness deltaSeconds
              (update_animation currentUpdateTime deltaSeconds s)))"

definition Game_onUpdate :: "world \<Rightarrow> int \<Rightarrow> game \<Rightarrow> error + game" where
  "Game_onUpdate w currentUpdateTime s =
     (case update_position w (before_collision currentUpdateTime s) of
        Inl e \<Rightarrow> Inl e
      | Inr s' \<Rightarrow>
          (case update_interaction w s' of
             Inl e \<Rightarrow> Inl e
           | Inr s'' \<Rightarrow> Inr (s''\<lparr>lastUpdateTime := currentUpdateTime\<rparr>)))"

subsection \<open>The event loop\<close>

text \<open>
  The callbacks GLUT dispatches, one at a time. \<open>run\<close> dispatches a list of events and
  stops at a fatal error or when the main loop was left.
\<close>

datatype event =
    Update int
  | KeyboardDown char
  | KeyboardUp char
  | MouseMove int int
  | Resize int int

fun dispatch :: "world \<Rightarrow> event \<Rightarrow> game \<Rightarrow> error + game" where
  "dispatch w (Update currentUpdateTime) s = Game_onUpdate w currentUpdateTime s"
| "dispatch w (KeyboardDown key) s = Inr (Game_onKeyboardDown key s)"
| "dispatch w (KeyboardUp key) s = Inr (Game_onKeyboardUp key s)"
| "dispatch w (MouseMove mouseX mouseY) s = Inr (Game_onMouseMove mouseX mouseY s)"
| "dispatch w (Resize newWidth newHeight) s = Inr (Game_onResize newWidth newHeight s)"

fun run :: "world \<Rightarrow> event list \<Rightarrow> game \<Rightarrow> error + game" where
  "run w [] s = Inr s"
| "run w (e # es) s =
     (if mainLoopLeft s then Inr s
      else (case dispatch w e s of Inl err \<Rightarrow> Inl err | Inr s' \<Rightarrow> run w es s'))"

text \<open>
  \<open>main\<close>: the game is loaded, then the main loop dispatches the events. \<open>t\<close> is the
  elapsed time read by \<open>Game_onLoad\<close>.
\<close>

definition main :: "world \<Rightarrow> int \<Rightarrow> event list \<Rightarrow> error + game" where
  "main w t es =
     (case Game_onLoad w t initialGame of Inl e \<Rightarrow> Inl e | Inr s \<Rightarrow> run w es s)"

subsection \<open>Notions of the specification\<close>

text \<open>
  The order of the item states (the values of the C enum): the item is at its place,
  then carried, then delivered.
\<close>

fun ItemState_value :: "ItemState \<Rightarrow> nat" where
  "ItemState_value Initial = 0"
| "ItemState_value Held = 1"
| "ItemState_value Dropped = 2"



text \<open>
  "Every step has a non-negative \<open>deltaSeconds\<close>": the elapsed times read by the steps
  of a list of events never decrease, starting from the time \<open>t\<close> of the last step (or
  of loading).
\<close>

fun nonnegative_deltas :: "int \<Rightarrow> event list \<Rightarrow> bool" where
  "nonnegative_deltas t [] = True"
| "nonnegative_deltas t (Update t' # es) = (t \<le> t' \<and> nonnegative_deltas t' es)"
| "nonnegative_deltas t (e # es) = nonnegative_deltas t es"

text \<open>
  A state the game reaches: the key \<open>d\<close> is pressed and the first step comes 1.8 seconds
  after loading (see \<open>bounceState_reached\<close>). The player then stands inside the
  wall cell (10, 1).
\<close>

definition bounceState :: game where
  "bounceState = initialGame\<lparr>isLoaded := True, inputRight := True, playerX := 247 / 25,
     playerZ := 1, playerAccerlationX := 72 / 25, itemRotationY := 81,
     gameBrightness := 9 / 10, lastUpdateTime := 1800, currentTimeMs := 800\<rparr>"

subsection \<open>The fade-in in binary32\<close>

text \<open>
  \<open>binary32 x\<close> is the \<open>float\<close> nearest to \<open>x\<close> (ties to even): \<open>x\<close> is scaled by the
  power of two that brings it to 24 bits, rounded and scaled back. \<open>binade n x\<close> finds
  the exponent \<open>e\<close> with \<open>2^e \<le> x < 2^(e+1)\<close> in at most \<open>n\<close> steps; exponents below -126 are
  the subnormal range, and overflow to infinity is not modelled.
\<close>

fun binade :: "nat \<Rightarrow> real \<Rightarrow> int" where
  "binade 0 x = 0"
| "binade (Suc n) x =
     (if x < 1 then binade n (2 * x) - 1 else if 2 \<le> x then binade n (x / 2) + 1 else 0)"

definition pow2 :: "int \<Rightarrow> real" where
  "pow2 e = (if 0 \<le> e then 2 ^ nat e else 1 / 2 ^ nat (- e))"

definition round_even :: "real \<Rightarrow> int" where
  "round_even m =
     (let r = \<lfloor>m\<rfloor>; d = m - of_int r
      in if d < 1 / 2 then r else if 1 / 2 < d then r + 1 else if even r then r else r + 1)"

definition binary32 :: "real \<Rightarrow> real" where
  "binary32 x =
     (if x = 0 then 0
      else (let e = max (binade 300 \<bar>x\<bar>) (- 126); q = pow2 (e - 23)
            in sgn x * of_int (round_even (\<bar>x\<bar> / q)) * q))"

text \<open>
  The fade-in branch of \<open>Game_onUpdate\<close> with every operation rounded as the C code
  rounds it: \<open>deltaSeconds = (float)ms / 1000\<close>, then
  \<open>gameBrightness = MIN(1, gameBrightness + FADEOUT_SPEED * deltaSeconds)\<close> when
  \<open>gameBrightness < 1.0f\<close>; \<open>ms\<close> is \<open>currentUpdateTime - lastUpdateTime\<close>.
\<close>

definition fade_in_binary32 :: "int \<Rightarrow> real \<Rightarrow> real" where
  "fade_in_binary32 ms b =
     (if b < 1 then
        MIN_macro 1 (binary32 (b + binary32 (FADEOUT_SPEED * binary32 (of_int ms / 1000))))
      else b)"

section \<open>Properties\<close>

subsection \<open>The world model\<close>

lemma gameMap_dims [simp]:
  "mapWidth gameMap = 15" "mapDepth gameMap = 11" "length (mapFields gameMap) = 165"
  by (simp_all add: gameMap_def)

lemma roundf_of_int: "roundf (of_int k) = of_int k"
  by (simp add: roundf_def)

lemma float_to_int_of_int:
  "float_to_int (of_int k) =
     (if - 2147483648 \<le> k \<and> k \<le> 2147483647 then Inr k else Inl UndefinedBehaviour)"
  by (simp add: float_to_int_def)

lemma indices_of_ints:
  "- 2147483648 \<le> i \<Longrightarrow> i \<le> 2147483647 \<Longrightarrow> - 2147483648 \<le> j \<Longrightarrow> j \<le> 2147483647 \<Longrightarrow>
   roundf x = of_int i \<Longrightarrow> roundf z = of_int j \<Longrightarrow>
   Game_getMapFieldIndiciesByPosition x z = Inr (i, j)"
  by (simp add: Game_getMapFieldIndiciesByPosition_def float_to_int_of_int)

text \<open>A lookup by indices inside a grid whose array has the declared size.\<close>

lemma lookup_in_grid:
  assumes len: "int (length (mapFields w)) = mapWidth w * mapDepth w"
    and "0 \<le> x" "x < mapWidth w" "0 \<le> z" "z < mapDepth w"
  shows "Game_getMapFieldByIndicies w x z = Inr (mapFields w ! nat (x * mapDepth w + z))"
    and "nat (x * mapDepth w + z) < length (mapFields w)"
proof -
  have "x * mapDepth w + z < (x + 1) * mapDepth w"
    using assms by (simp add: algebra_simps)
  also have "\<dots> \<le> mapWidth w * mapDepth w"
    using assms by (intro mult_right_mono) simp_all
  finally have up: "x * mapDepth w + z < int (length (mapFields w))" using len by simp
  moreover have lo: "0 \<le> x * mapDepth w + z" using assms by simp
  ultimately show "Game_getMapFieldByIndicies w x z = Inr (mapFields w ! nat (x * mapDepth w + z))"
    using assms by (simp add: Game_getMapFieldByIndicies_def map_read_def)
  show "nat (x * mapDepth w + z) < length (mapFields w)" using up lo by linarith
qed

text \<open>
  C7. For every valid pair of indices, the lookup at the position of the indices is the
  lookup by the indices; on a grid whose array has the declared size both return the
  field stored at \<open>ix * depth + iz\<close>.
\<close>

theorem position_index_roundtrip:
  assumes "0 \<le> ix" "ix < mapWidth w" "0 \<le> iz" "iz < mapDepth w"
    and "mapWidth w \<le> 2147483647" "mapDepth w \<le> 2147483647"
  shows "(case Game_getMapFieldPositionByIndicies ix iz of
            (x, z) \<Rightarrow> Game_getMapFieldByPosition w x z) = Game_getMapFieldByIndicies w ix iz
       \<and> (int (length (mapFields w)) = mapWidth w * mapDepth w \<longrightarrow>
            Game_getMapFieldByIndicies w ix iz = Inr (mapFields w ! nat (ix * mapDepth w + iz)))"
proof -
  have "Game_getMapFieldIndiciesByPosition (of_int ix) (of_int iz) = Inr (ix, iz)"
    using assms by (intro indices_of_ints) (simp_all add: roundf_of_int)
  then have "(case Game_getMapFieldPositionByIndicies ix iz of
            (x, z) \<Rightarrow> Game_getMapFieldByPosition w x z) = Game_getMapFieldByIndicies w ix iz"
    using assms
    by (simp add: Game_getMapFieldPositionByIndicies_def Game_getMapFieldByPosition_def
        Game_getMapFieldByIndicies_def)
  then show ?thesis using lookup_in_grid(1)[of w ix iz] assms by simp
qed

theorem position_index_roundtrip_witness:
  "(case Game_getMapFieldPositionByIndicies 12 9 of
      (x, z) \<Rightarrow> Game_getMapFieldByPosition gameMap x z) = Inr Item
   \<and> Game_getMapFieldByIndicies gameMap 12 9 = Inr Item"
  using position_index_roundtrip [of 12 gameMap 9]
  by (simp add: gameMap_def)

subsection \<open>Loading\<close>

lemma spawnScanZ_Some:
  "spawnScanZ w x zs = Inr (Some z) \<Longrightarrow>
   \<exists>pre post. zs = pre @ z # post \<and> Game_getMapFieldByIndicies w x z = Inr Init \<and>
     (\<forall>z'\<in>set pre. \<exists>f. Game_getMapFieldByIndicies w x z' = Inr f \<and> f \<noteq> Init)"
proof (induction zs)
  case Nil
  then show ?case by simp
next
  case (Cons a zs)
  show ?case
  proof (cases "Game_getMapFieldByIndicies w x a")
    case (Inl e)
    with Cons.prems show ?thesis by simp
  next
    case (Inr f)
    show ?thesis
    proof (cases "f = Init")
      case True
      with Inr Cons.prems have "a = z" by simp
      with Inr True show ?thesis by (intro exI[of _ "[]"] exI[of _ zs]) auto
    next
      case False
      with Inr Cons.prems have "spawnScanZ w x zs = Inr (Some z)" by simp
      from Cons.IH[OF this] obtain pre post where
        "zs = pre @ z # post" "Game_getMapFieldByIndicies w x z = Inr Init"
        "\<forall>z'\<in>set pre. \<exists>f. Game_getMapFieldByIndicies w x z' = Inr f \<and> f \<noteq> Init"
        by blast
      with Inr False show ?thesis
        by (intro exI[of _ "a # pre"] exI[of _ post]) auto
    qed
  qed
qed

lemma spawnScanZ_None:
  "spawnScanZ w x zs = Inr None \<Longrightarrow>
   \<forall>z'\<in>set zs. \<exists>f. Game_getMapFieldByIndicies w x z' = Inr f \<and> f \<noteq> Init"
  by (induction zs) (auto split: sum.splits if_splits)

lemma spawnScanZ_no_error:
  "\<forall>z\<in>set zs. \<exists>f. Game_getMapFieldByIndicies w x z = Inr f \<Longrightarrow> spawnScanZ w x zs \<noteq> Inl e"
  by (induction zs) (auto split: sum.splits if_splits)

lemma spawnScanX_Some:
  "spawnScanX w xs = Inr (Some (x, z)) \<Longrightarrow>
   \<exists>pre post. xs = pre @ x # post \<and> spawnScanZ w x [0..mapDepth w - 1] = Inr (Some z) \<and>
     (\<forall>x'\<in>set pre. spawnScanZ w x' [0..mapDepth w - 1] = Inr None)"
proof (induction xs)
  case Nil
  then show ?case by simp
next
  case (Cons a xs)
  show ?case
  proof (cases "spawnScanZ w a [0..mapDepth w - 1]")
    case (Inl e)
    with Cons.prems show ?thesis by simp
  next
    case (Inr r)
    show ?thesis
    proof (cases r)
      case (Some z')
      with Inr Cons.prems have "a = x" "z' = z" by simp_all
      with Inr Some show ?thesis by (intro exI[of _ "[]"] exI[of _ xs]) auto
    next
      case None
      with Inr Cons.prems have "spawnScanX w xs = Inr (Some (x, z))" by simp
      from Cons.IH[OF this] obtain pre post where
        "xs = pre @ x # post" "spawnScanZ w x [0..mapDepth w - 1] = Inr (Some z)"
        "\<forall>x'\<in>set pre. spawnScanZ w x' [0..mapDepth w - 1] = Inr None"
        by blast
      with Inr None show ?thesis
        by (intro exI[of _ "a # pre"] exI[of _ post]) auto
    qed
  qed
qed

lemma spawnScanX_None:
  "spawnScanX w xs = Inr None \<Longrightarrow> \<forall>x\<in>set xs. spawnScanZ w x [0..mapDepth w - 1] = Inr None"
  by (induction xs) (auto split: sum.splits option.splits)

lemma spawnScanX_no_error:
  "\<forall>x\<in>set xs. \<forall>e. spawnScanZ w x [0..mapDepth w - 1] \<noteq> Inl e \<Longrightarrow> spawnScanX w xs \<noteq> Inl e"
  by (induction xs) (auto split: sum.splits option.splits)

lemma upto_prefix_all:
  assumes "[a..b] = pre @ x # post" "a \<le> y" "y < x"
  shows "y \<in> set pre"
proof -
  have s: "sorted (pre @ x # post)" "distinct (pre @ x # post)"
    using assms(1)[symmetric] by simp_all
  have "x \<in> set [a..b]" by (simp only: assms(1)) simp
  then have "y \<in> set [a..b]" using assms(2,3) by simp
  then have "y \<in> set pre \<or> y = x \<or> y \<in> set post" by (simp only: assms(1)) auto
  moreover have "y \<notin> set post" using s assms(3) by (auto simp: sorted_append)
  ultimately show ?thesis using assms(3) by auto
qed

lemma upto_mid_bounds:
  assumes "[a..b] = pre @ x # post"
  shows "a \<le> x \<and> x \<le> b"
proof -
  have "x \<in> set [a..b]" by (simp only: assms) simp
  then show ?thesis by simp
qed

lemma index_order:
  fixes d :: int
  assumes "0 < d" "0 \<le> z" "z < d" "0 \<le> j" "j < x * d + z"
  shows "j div d < x \<or> (j div d = x \<and> j mod d < z)"
proof -
  have "j div d \<le> (x * d + z) div d"
    using assms by (intro zdiv_mono1) simp_all
  also have "(x * d + z) div d = x" using assms by simp
  finally have le: "j div d \<le> x" .
  show ?thesis
  proof (cases "j div d = x")
    case True
    have "j = (j div d) * d + j mod d" by simp
    with True have "j = x * d + j mod d" by simp
    with assms(5) have "j mod d < z" by linarith
    with True show ?thesis by simp
  next
    case False
    with le show ?thesis by simp
  qed
qed

lemma spawnScanX_grid:
  assumes len: "int (length (mapFields w)) = mapWidth w * mapDepth w"
    and wpos: "0 \<le> mapWidth w"
  shows "spawnScanX w [0..mapWidth w - 1] =
     (if Init \<in> set (mapFields w) then
        Inr (Some (int (length (takeWhile (\<lambda>f. f \<noteq> Init) (mapFields w))) div mapDepth w,
                   int (length (takeWhile (\<lambda>f. f \<noteq> Init) (mapFields w))) mod mapDepth w))
      else Inr None)"
proof -
  let ?d = "mapDepth w" and ?fs = "mapFields w" and ?W = "mapWidth w"
  let ?n = "length (takeWhile (\<lambda>f. f \<noteq> Init) ?fs)"
  have inrange: "Game_getMapFieldByIndicies w x z = Inr (?fs ! nat (x * ?d + z))"
    if "x \<in> set [0..?W - 1]" "z \<in> set [0..?d - 1]" for x z
    using that lookup_in_grid(1)[OF len, of x z] by simp
  have noerrZ: "\<forall>x\<in>set [0..?W - 1]. \<forall>e. spawnScanZ w x [0..?d - 1] \<noteq> Inl e"
    using inrange by (intro ballI allI spawnScanZ_no_error) blast
  have noerr: "spawnScanX w [0..?W - 1] \<noteq> Inl e" for e
    by (rule spawnScanX_no_error[OF noerrZ])
  show ?thesis
  proof (cases "spawnScanX w [0..?W - 1]")
    case (Inl e)
    with noerr[of e] show ?thesis by simp
  next
    case (Inr r)
    show ?thesis
    proof (cases r)
      case None
      have all: "?fs ! nat (x * ?d + z) \<noteq> Init"
        if xin: "x \<in> set [0..?W - 1]" and zin: "z \<in> set [0..?d - 1]" for x z
      proof -
        from Inr None have "spawnScanZ w x [0..?d - 1] = Inr None"
          using spawnScanX_None xin by blast
        then obtain f where "Game_getMapFieldByIndicies w x z = Inr f" "f \<noteq> Init"
          using spawnScanZ_None zin by blast
        with inrange[OF xin zin] show ?thesis by simp
      qed
      have "f \<noteq> Init" if "f \<in> set ?fs" for f
      proof -
        from that obtain i where i: "i < length ?fs" "?fs ! i = f" by (auto simp: in_set_conv_nth)
        have "0 < ?W * ?d" using i len by linarith
        with wpos have dpos: "0 < ?d" and Wpos: "0 < ?W"
          by (auto simp: zero_less_mult_iff)
        let ?x = "int i div ?d" and ?z = "int i mod ?d"
        have "0 \<le> ?x" using dpos by (simp add: pos_imp_zdiv_nonneg_iff)
        moreover have "?x < ?W"
        proof -
          have lt: "int i < ?W * ?d" using i len by linarith
          show ?thesis
          proof (rule ccontr)
            assume "\<not> ?x < ?W"
            then have a: "?W * ?d \<le> ?x * ?d" using dpos by (intro mult_right_mono) simp_all
            have b: "?x * ?d + ?z = int i" by simp
            have c: "0 \<le> ?z" using dpos by simp
            from a b c lt show False by linarith
          qed
        qed
        moreover have "0 \<le> ?z" "?z < ?d" using dpos by simp_all
        ultimately have "?fs ! nat (?x * ?d + ?z) \<noteq> Init"
          by (intro all) simp_all
        with i show ?thesis by simp
      qed
      with Inr None show ?thesis by auto
    next
      case (Some p)
      obtain x z where p: "p = (x, z)" by (cases p)
      from Inr Some p have found: "spawnScanX w [0..?W - 1] = Inr (Some (x, z))" by simp
      from spawnScanX_Some[OF found] obtain pre post where
        xs: "[0..?W - 1] = pre @ x # post" and
        zscan: "spawnScanZ w x [0..?d - 1] = Inr (Some z)" and
        before: "\<forall>x'\<in>set pre. spawnScanZ w x' [0..?d - 1] = Inr None"
        by blast
      from spawnScanZ_Some[OF zscan] obtain pre' post' where
        zs: "[0..?d - 1] = pre' @ z # post'" and
        hit: "Game_getMapFieldByIndicies w x z = Inr Init" and
        before': "\<forall>z'\<in>set pre'. \<exists>f. Game_getMapFieldByIndicies w x z' = Inr f \<and> f \<noteq> Init"
        by blast
      have xb: "0 \<le> x" "x < ?W" using upto_mid_bounds[OF xs] by simp_all
      have zb: "0 \<le> z" "z < ?d" using upto_mid_bounds[OF zs] by simp_all
      then have dpos: "0 < ?d" by simp
      let ?i = "nat (x * ?d + z)"
      have ilt: "?i < length ?fs" using lookup_in_grid(2)[OF len xb zb] .
      have ihit: "?fs ! ?i = Init"
        using lookup_in_grid(1)[OF len xb zb] hit by simp
      have nonneg: "0 \<le> x * ?d + z" using xb zb by simp
      have ibefore: "?fs ! j \<noteq> Init" if "j < ?i" for j
      proof -
        let ?x' = "int j div ?d" and ?z' = "int j mod ?d"
        have jlt: "int j < x * ?d + z" using that nonneg by linarith
        have zb': "0 \<le> ?z'" "?z' < ?d" using dpos by simp_all
        have xb': "0 \<le> ?x'" using dpos by (simp add: pos_imp_zdiv_nonneg_iff)
        from index_order[OF dpos zb _ jlt]
        have ord: "?x' < x \<or> (?x' = x \<and> ?z' < z)" by simp
        have "\<exists>f. Game_getMapFieldByIndicies w ?x' ?z' = Inr f \<and> f \<noteq> Init"
        proof (cases "?x' < x")
          case True
          then have "?x' \<in> set pre" using upto_prefix_all[OF xs xb'] by simp
          with before have "spawnScanZ w ?x' [0..?d - 1] = Inr None" by blast
          moreover have "?z' \<in> set [0..?d - 1]" using zb' by simp
          ultimately show ?thesis using spawnScanZ_None by blast
        next
          case False
          with ord have eq: "?x' = x" and zlt: "?z' < z" by simp_all
          have "?z' \<in> set pre'" using upto_prefix_all[OF zs zb'(1) zlt] .
          with before' eq show ?thesis by auto
        qed
        then obtain f where f: "Game_getMapFieldByIndicies w ?x' ?z' = Inr f" "f \<noteq> Init" by blast
        have "?x' < ?W" using ord xb by auto
        from lookup_in_grid(1)[OF len xb' this zb'] f show ?thesis by simp
      qed
      have "takeWhile (\<lambda>f. f \<noteq> Init) ?fs = take ?i ?fs"
        using ibefore ihit by (intro takeWhile_eq_take_P_nth) simp_all
      then have n: "?n = ?i" using ilt by simp
      have "Init \<in> set ?fs" using ilt ihit by (metis nth_mem)
      moreover have "int ?n div ?d = x" "int ?n mod ?d = z"
        using n nonneg zb dpos by simp_all
      ultimately show ?thesis using found by simp
    qed
  qed
qed

text \<open>
  What \<open>Game_onLoad\<close> returns, for every grid: a fatal error when the game is already
  loaded, when the array has not the declared size, when the dimensions are negative
  or when no field is \<open>Init\<close>; otherwise the player stands on the first \<open>Init\<close> field of
  the array.
\<close>

lemma Game_onLoad_eq:
  "Game_onLoad w t s =
     (if isLoaded s \<or> int (length (mapFields w)) \<noteq> mapWidth w * mapDepth w
         \<or> mapWidth w < 0 \<or> Init \<notin> set (mapFields w)
      then Inl Terminated
      else Inr (s\<lparr>lastUpdateTime := t,
                  playerX := of_int (int (length (takeWhile (\<lambda>f. f \<noteq> Init) (mapFields w)))
                                      div mapDepth w),
                  playerZ := of_int (int (length (takeWhile (\<lambda>f. f \<noteq> Init) (mapFields w)))
                                      mod mapDepth w),
                  isLoaded := True\<rparr>))"
proof (cases "0 \<le> mapWidth w \<and> int (length (mapFields w)) = mapWidth w * mapDepth w")
  case True
  then show ?thesis
    by (simp add: Game_onLoad_def spawnScanX_grid Game_getMapFieldPositionByIndicies_def)
next
  case False
  then have "mapWidth w < 0 \<or> int (length (mapFields w)) \<noteq> mapWidth w * mapDepth w" by auto
  moreover have "spawnScanX w [0..mapWidth w - 1] = Inr None" if "mapWidth w < 0"
    using that by simp
  ultimately show ?thesis
    by (auto simp: Game_onLoad_def)
qed

lemma Game_onLoad_gameMap:
  "Game_onLoad gameMap t initialGame
     = Inr (initialGame\<lparr>lastUpdateTime := t, playerX := 7, playerZ := 1, isLoaded := True\<rparr>)"
  by (simp add: Game_onLoad_eq gameMap_def initialGame_def)

text \<open>
  C6. The claim: loading rejects every grid whose array has not the size
  \<open>width * depth\<close> and every grid with no or with more than one spawn cell. The code
  stops its search at the first spawn cell and never looks for a second one: the
  labyrinth of the game with a second \<open>Init\<close> at cell \<open>(1, 1)\<close> is loaded, and the player
  is placed on that cell.
\<close>

theorem Game_onLoad_two_spawns:
  "Game_onLoad (gameMap\<lparr>mapFields := (mapFields gameMap)[12 := Init]\<rparr>) 0 initialGame
     = Inr (initialGame\<lparr>lastUpdateTime := 0, playerX := 1, playerZ := 1, isLoaded := True\<rparr>)
   \<and> count_list (mapFields (gameMap\<lparr>mapFields := (mapFields gameMap)[12 := Init]\<rparr>)) Init = 2"
  by (simp add: Game_onLoad_eq gameMap_def initialGame_def)

text \<open>
  C6, amended. Loading ends with a fatal error for every grid whose array has not the
  size \<open>width * depth\<close> and for every grid with no spawn cell. A grid that is loaded has
  at least one spawn cell, and the player is placed on the first one in the order of
  the array (index \<open>x * depth + z\<close>). Every grid of the declared size and of non-negative
  width with at least one spawn cell is loaded.
\<close>

theorem Game_onLoad_validation:
  "(int (length (mapFields w)) \<noteq> mapWidth w * mapDepth w \<longrightarrow> Game_onLoad w t s = Inl Terminated)
   \<and> (Init \<notin> set (mapFields w) \<longrightarrow> Game_onLoad w t s = Inl Terminated)
   \<and> (Game_onLoad w t s = Inr s' \<longrightarrow>
        int (length (mapFields w)) = mapWidth w * mapDepth w
        \<and> (\<exists>i<length (mapFields w). mapFields w ! i = Init \<and> (\<forall>j<i. mapFields w ! j \<noteq> Init)
              \<and> playerX s' = of_int (int i div mapDepth w)
              \<and> playerZ s' = of_int (int i mod mapDepth w)))
   \<and> (\<not> isLoaded s \<and> 0 \<le> mapWidth w \<and> int (length (mapFields w)) = mapWidth w * mapDepth w
        \<and> Init \<in> set (mapFields w) \<longrightarrow> (\<exists>s'. Game_onLoad w t s = Inr s'))"
proof -
  let ?n = "length (takeWhile (\<lambda>f. f \<noteq> Init) (mapFields w))"
  have first: "?n < length (mapFields w) \<and> mapFields w ! ?n = Init
      \<and> (\<forall>j<?n. mapFields w ! j \<noteq> Init)"
    if "Init \<in> set (mapFields w)"
  proof -
    have "?n \<noteq> length (mapFields w)"
    proof
      assume "?n = length (mapFields w)"
      then have "takeWhile (\<lambda>f. f \<noteq> Init) (mapFields w) = mapFields w"
        using takeWhile_eq_take[of "\<lambda>f. f \<noteq> Init" "mapFields w"] by simp
      then have "\<forall>f\<in>set (mapFields w). f \<noteq> Init" by simp
      with that show False by blast
    qed
    then have lt: "?n < length (mapFields w)"
      using length_takeWhile_le[of "\<lambda>f. f \<noteq> Init" "mapFields w"] by simp
    moreover have "mapFields w ! ?n = Init"
      using nth_length_takeWhile[OF lt] by simp
    moreover have "\<forall>j<?n. mapFields w ! j \<noteq> Init"
      using nth_mem[of _ "takeWhile (\<lambda>f. f \<noteq> Init) (mapFields w)"]
      by (metis (mono_tags, lifting) set_takeWhileD takeWhile_nth)
    ultimately show ?thesis by simp
  qed
  show ?thesis
    using first by (auto simp: Game_onLoad_eq)
qed

theorem Game_onLoad_validation_witness:
  "Game_onLoad (gameMap\<lparr>mapFields := [Wall]\<rparr>) 0 initialGame = Inl Terminated
   \<and> Game_onLoad \<lparr>mapWidth = 1, mapDepth = 1, mapFields = [Tile]\<rparr> 0 initialGame = Inl Terminated
   \<and> Game_onLoad gameMap 0 initialGame
       = Inr (initialGame\<lparr>lastUpdateTime := 0, playerX := 7, playerZ := 1, isLoaded := True\<rparr>)
   \<and> (\<exists>i<length (mapFields gameMap). mapFields gameMap ! i = Init
         \<and> (\<forall>j<i. mapFields gameMap ! j \<noteq> Init)
         \<and> (7::real) = of_int (int i div mapDepth gameMap)
         \<and> (1::real) = of_int (int i mod mapDepth gameMap))"
  using Game_onLoad_validation [of "gameMap\<lparr>mapFields := [Wall]\<rparr>" 0 initialGame initialGame]
    Game_onLoad_validation [of "\<lparr>mapWidth = 1, mapDepth = 1, mapFields = [Tile]\<rparr>" 0
      initialGame initialGame]
    Game_onLoad_validation [of gameMap 0 initialGame
      "initialGame\<lparr>lastUpdateTime := 0, playerX := 7, playerZ := 1, isLoaded := True\<rparr>"]
  by (simp add: Game_onLoad_gameMap)

subsection \<open>The interaction\<close>

lemma probedIndices_eq:
  "probedIndices cx cz =
    [(cx - 1, cz - 1), (cx - 1, cz), (cx - 1, cz + 1),
     (cx, cz - 1), (cx, cz), (cx, cz + 1),
     (cx + 1, cz - 1), (cx + 1, cz), (cx + 1, cz + 1)]"
proof -
  have "[k - 1..k + 1] = [k - 1, k, k + 1]" for k :: int
    by (simp add: upto_rec1[of "k - 1"] upto_rec1[of k] upto_rec1[of "k + 1"])
  then show ?thesis by (simp add: probedIndices_def)
qed









text \<open>The two probing loops.\<close>

lemma probe_mono: "ItemState_value st \<le> ItemState_value (probe f st)"
  by (cases st) (simp_all add: probe_def)

lemma probeFields_mono:
  "probeFields w ps st = Inr st' \<Longrightarrow> ItemState_value st \<le> ItemState_value st'"
proof (induction ps arbitrary: st)
  case Nil
  then show ?case by simp
next
  case (Cons p ps)
  obtain x z where p: "p = (x, z)" by (cases p)
  from Cons.prems p obtain f where f: "Game_getMapFieldByIndicies w x z = Inr f"
    and rest: "probeFields w ps (probe f st) = Inr st'"
    by (auto split: sum.splits)
  from Cons.IH[OF rest] probe_mono[of st f] show ?case by simp
qed






subsection \<open>One step of the simulation\<close>

lemma update_motion_frame [simp]:
  "gameBrightness (update_motion dt s) = gameBrightness s"
  "itemState (update_motion dt s) = itemState s"
  "inputAction (update_motion dt s) = inputAction s"
  "mainLoopLeft (update_motion dt s) = mainLoopLeft s"
  "lastUpdateTime (update_motion dt s) = lastUpdateTime s"
  "isLoaded (update_motion dt s) = isLoaded s"
  by (simp_all add: update_motion_def update_friction_def update_vertical_def
      update_accerlation_def update_rotation_def Let_def split: prod.splits)

lemma update_animation_frame [simp]:
  "gameBrightness (update_animation t dt s) = gameBrightness s"
  "itemState (update_animation t dt s) = itemState s"
  "inputAction (update_animation t dt s) = inputAction s"
  "mainLoopLeft (update_animation t dt s) = mainLoopLeft s"
  "lastUpdateTime (update_animation t dt s) = lastUpdateTime s"
  "isLoaded (update_animation t dt s) = isLoaded s"
  by (simp_all add: update_animation_def)

lemma update_brightness_frame [simp]:
  "itemState (update_brightness dt s) = itemState s"
  "inputAction (update_brightness dt s) = inputAction s"
  "lastUpdateTime (update_brightness dt s) = lastUpdateTime s"
  "isLoaded (update_brightness dt s) = isLoaded s"
  by (simp_all add: update_brightness_def Game_onDestroy_def)

lemma update_brightness_animation [simp]:
  "gameBrightness (update_brightness dt (update_animation t dt' s)) = gameBrightness (update_brightness dt s)"
  "mainLoopLeft (update_brightness dt (update_animation t dt' s)) = mainLoopLeft (update_brightness dt s)"
  by (simp_all add: update_brightness_def update_animation_def Game_onDestroy_def)

lemma before_collision_frame [simp]:
  "gameBrightness (before_collision t s) = gameBrightness (update_brightness (deltaSeconds_of t s) s)"
  "mainLoopLeft (before_collision t s) = mainLoopLeft (update_brightness (deltaSeconds_of t s) s)"
  "itemState (before_collision t s) = itemState s"
  "inputAction (before_collision t s) = inputAction s"
  "lastUpdateTime (before_collision t s) = lastUpdateTime s"
  "isLoaded (before_collision t s) = isLoaded s"
  by (simp_all add: before_collision_def Let_def)

lemma update_position_frame:
  assumes "update_position w s = Inr s'"
  shows "gameBrightness s' = gameBrightness s" "itemState s' = itemState s"
    "inputAction s' = inputAction s" "mainLoopLeft s' = mainLoopLeft s"
    "lastUpdateTime s' = lastUpdateTime s" "isLoaded s' = isLoaded s"
  using assms
  by (auto simp: update_position_def Let_def split: sum.splits if_splits)

lemma update_interaction_frame:
  assumes "update_interaction w s = Inr s'"
  shows "gameBrightness s' = gameBrightness s"
    "inputAction s' = inputAction s" "mainLoopLeft s' = mainLoopLeft s"
    "lastUpdateTime s' = lastUpdateTime s" "isLoaded s' = isLoaded s"
    "playerX s' = playerX s" "playerZ s' = playerZ s"
  using assms
  by (auto simp: update_interaction_def split: sum.splits if_splits prod.splits)

lemma update_interaction_state:
  assumes "update_interaction w s = Inr s'"
  shows "if inputAction s then
           \<exists>cx cz. Game_getMapFieldIndiciesByPosition (playerX s) (playerZ s) = Inr (cx, cz)
              \<and> probeFields w (probedIndices cx cz) (itemState s) = Inr (itemState s')
         else itemState s' = itemState s"
  using assms
  by (auto simp: update_interaction_def split: sum.splits if_splits prod.splits)

text \<open>One step, taken apart.\<close>

lemma Game_onUpdate_Inr:
  assumes "Game_onUpdate w t s = Inr s'"
  obtains s1 s2 where
    "update_position w (before_collision t s) = Inr s1"
    "update_interaction w s1 = Inr s2" "s' = s2\<lparr>lastUpdateTime := t\<rparr>"
  using assms by (auto simp: Game_onUpdate_def split: sum.splits)

lemma Game_onUpdate_frame:
  assumes "Game_onUpdate w t s = Inr s'"
  shows "gameBrightness s' = gameBrightness (update_brightness (deltaSeconds_of t s) s)"
    and "mainLoopLeft s' = mainLoopLeft (update_brightness (deltaSeconds_of t s) s)"
    and "lastUpdateTime s' = t"
    and "inputAction s' = inputAction s"
    and "isLoaded s' = isLoaded s"
proof -
  from assms obtain s1 s2 where
    1: "update_position w (before_collision t s) = Inr s1"
    and 2: "update_interaction w s1 = Inr s2" and 3: "s' = s2\<lparr>lastUpdateTime := t\<rparr>"
    by (rule Game_onUpdate_Inr)
  show "gameBrightness s' = gameBrightness (update_brightness (deltaSeconds_of t s) s)"
    using update_position_frame(1)[OF 1] update_interaction_frame(1)[OF 2] 3 by simp
  show "mainLoopLeft s' = mainLoopLeft (update_brightness (deltaSeconds_of t s) s)"
    using update_position_frame(4)[OF 1] update_interaction_frame(3)[OF 2] 3 by simp
  show "lastUpdateTime s' = t" using 3 by simp
  show "inputAction s' = inputAction s"
    using update_position_frame(3)[OF 1] update_interaction_frame(2)[OF 2] 3 by simp
  show "isLoaded s' = isLoaded s"
    using update_position_frame(6)[OF 1] update_interaction_frame(5)[OF 2] 3 by simp
qed

lemma Game_onUpdate_state:
  assumes "Game_onUpdate w t s = Inr s'"
  shows "if inputAction s then
           \<exists>cx cz. Game_getMapFieldIndiciesByPosition (playerX s') (playerZ s') = Inr (cx, cz)
              \<and> probeFields w (probedIndices cx cz) (itemState s) = Inr (itemState s')
         else itemState s' = itemState s"
proof -
  from assms obtain s1 s2 where
    1: "update_position w (before_collision t s) = Inr s1"
    and 2: "update_interaction w s1 = Inr s2" and 3: "s' = s2\<lparr>lastUpdateTime := t\<rparr>"
    by (rule Game_onUpdate_Inr)
  have "itemState s1 = itemState s" "inputAction s1 = inputAction s"
    using update_position_frame(2,3)[OF 1] by simp_all
  moreover have "playerX s' = playerX s1" "playerZ s' = playerZ s1" "itemState s' = itemState s2"
    using update_interaction_frame(6,7)[OF 2] 3 by simp_all
  ultimately show ?thesis using update_interaction_state[OF 2] by (auto split: if_splits)
qed

lemma Game_onUpdate_mono:
  assumes "Game_onUpdate w t s = Inr s'"
  shows "ItemState_value (itemState s) \<le> ItemState_value (itemState s')"
  using Game_onUpdate_state[OF assms] probeFields_mono
  by (auto split: if_splits)




lemmas tick_defs = Game_onUpdate_def before_collision_def deltaSeconds_of_def update_animation_def
  update_brightness_def update_motion_def update_rotation_def update_accerlation_def
  newAccerlation_def newAxisAccerlation_def update_vertical_def update_friction_def
  update_position_def update_interaction_def Game_getMapFieldByPosition_def
  Game_getMapFieldIndiciesByPosition_def roundf_def float_to_int_def map_read_def
  Game_getMapFieldByIndicies_def probedIndices_eq probe_def Common_degToRad_def PI_def
  CALCULATION_TRESHOLD_def PLAYER_MAX_SPEED_def PLAYER_JUMP_SPEED_def PLAYER_FRICTION_def
  PLAYER_GRAVITY_def ITEM_ROTATION_SPEED_def FADEOUT_SPEED_def FLOOR_BOUNCYNESS_def
  MOUSE_SPEED_def MOUSE_FRICTION_def MIN_macro_def MAX_macro_def c_rem_def Game_onDestroy_def
  Game_onKeyboardDown_def Game_onKeyboardUp_def Game_onMouseMove_def Game_onResize_def


subsection \<open>Collision\<close>

lemma roundf_mono: "x \<le> y \<Longrightarrow> roundf x \<le> roundf y"
proof -
  assume xy: "x \<le> y"
  consider "0 \<le> x" | "x < 0" "0 \<le> y" | "y < 0" using xy by linarith
  then show ?thesis
  proof cases
    case 1
    then have "0 \<le> y" using xy by simp
    moreover have "\<lfloor>x + 1 / 2\<rfloor> \<le> \<lfloor>y + 1 / 2\<rfloor>" using xy by (intro floor_mono) simp
    ultimately show ?thesis using 1 by (simp add: roundf_def)
  next
    case 2
    have "0 \<le> \<lfloor>- x + 1 / 2\<rfloor>" using 2 by simp
    moreover have "0 \<le> \<lfloor>y + 1 / 2\<rfloor>" using 2 by simp
    ultimately have "- real_of_int \<lfloor>- x + 1 / 2\<rfloor> \<le> real_of_int \<lfloor>y + 1 / 2\<rfloor>"
      by linarith
    then show ?thesis using 2 by (simp add: roundf_def)
  next
    case 3
    then have "x < 0" using xy by simp
    moreover have "\<lfloor>- y + 1 / 2\<rfloor> \<le> \<lfloor>- x + 1 / 2\<rfloor>" using xy by (intro floor_mono) simp
    ultimately show ?thesis using 3 by (simp add: roundf_def)
  qed
qed

lemma roundf_is_int: "\<exists>i. roundf x = of_int i"
  by (auto simp: roundf_def intro: exI[of _ "- \<lfloor>- x + 1 / 2\<rfloor>"])

lemma Game_getMapFieldIndiciesByPosition_eq:
  "Game_getMapFieldIndiciesByPosition x z = Inr (i, j) \<longleftrightarrow>
     roundf x = of_int i \<and> roundf z = of_int j
     \<and> - 2147483648 \<le> i \<and> i \<le> 2147483647 \<and> - 2147483648 \<le> j \<and> j \<le> 2147483647"
proof -
  obtain a b where ab: "roundf x = of_int a" "roundf z = of_int b"
    using roundf_is_int by blast
  show ?thesis
    by (auto simp: Game_getMapFieldIndiciesByPosition_def ab float_to_int_of_int
        split: sum.splits if_splits)
qed

lemma roundf_between:
  assumes "roundf a = of_int i" "roundf c = of_int i" "(a \<le> b \<and> b \<le> c) \<or> (c \<le> b \<and> b \<le> a)"
  shows "roundf b = of_int i"
  using assms roundf_mono[of a b] roundf_mono[of b c] roundf_mono[of c b] roundf_mono[of b a]
  by (auto intro: antisym)

lemma bounce_leaves_cell:
  assumes cand: "Game_getMapFieldIndiciesByPosition (x + vx) (z + vz) = Inr c"
    and old: "Game_getMapFieldIndiciesByPosition x z \<noteq> Inr c"
  shows "Game_getMapFieldIndiciesByPosition (x + - vx) (z + - vz) \<noteq> Inr c"
proof
  assume new: "Game_getMapFieldIndiciesByPosition (x + - vx) (z + - vz) = Inr c"
  obtain i j where c: "c = (i, j)" by (cases c)
  from cand new c have r: "roundf (x + vx) = of_int i" "roundf (z + vz) = of_int j"
    "roundf (x + - vx) = of_int i" "roundf (z + - vz) = of_int j"
    and b: "- 2147483648 \<le> i" "i \<le> 2147483647" "- 2147483648 \<le> j" "j \<le> 2147483647"
    by (simp_all add: Game_getMapFieldIndiciesByPosition_eq)
  have "roundf x = of_int i"
    by (rule roundf_between[OF r(3) r(1)]) linarith
  moreover have "roundf z = of_int j"
    by (rule roundf_between[OF r(4) r(2)]) linarith
  ultimately have "Game_getMapFieldIndiciesByPosition x z = Inr c"
    using b c by (simp add: Game_getMapFieldIndiciesByPosition_eq)
  with old show False by simp
qed

text \<open>
  C2, amended. In the collision block of a step, when the lookup at the candidate
  position (position plus velocity) returns a field: the candidate is committed if and
  only if the value of the field is at most 0; otherwise the horizontal velocity is
  inverted and one step of the inverted velocity is applied to the old position.
  Whenever the player was not already in the cell of the candidate before the move,
  the cell of the committed position after a rejected move is not the cell of the
  candidate.
\<close>

theorem collision_resolution:
  assumes "Game_getMapFieldByPosition w (playerX s + playerAccerlationX s)
             (playerZ s + playerAccerlationZ s) = Inr f"
  shows "update_position w s =
           Inr (if Field_value f \<le> 0
                then s\<lparr>playerX := playerX s + playerAccerlationX s,
                       playerZ := playerZ s + playerAccerlationZ s,
                       playerY := MAX_macro 0 (playerY s + playerAccerlationY s)\<rparr>
                else s\<lparr>playerAccerlationX := - playerAccerlationX s,
                       playerAccerlationZ := - playerAccerlationZ s,
                       playerX := playerX s + - playerAccerlationX s,
                       playerZ := playerZ s + - playerAccerlationZ s,
                       playerY := MAX_macro 0 (playerY s + playerAccerlationY s)\<rparr>)
       \<and> (Game_getMapFieldIndiciesByPosition (playerX s) (playerZ s)
            \<noteq> Game_getMapFieldIndiciesByPosition (playerX s + playerAccerlationX s)
                 (playerZ s + playerAccerlationZ s)
          \<longrightarrow> Game_getMapFieldIndiciesByPosition (playerX s + - playerAccerlationX s)
                 (playerZ s + - playerAccerlationZ s)
            \<noteq> Game_getMapFieldIndiciesByPosition (playerX s + playerAccerlationX s)
                 (playerZ s + playerAccerlationZ s))"
proof -
  from assms obtain c where
    c: "Game_getMapFieldIndiciesByPosition (playerX s + playerAccerlationX s)
          (playerZ s + playerAccerlationZ s) = Inr c"
    by (auto simp: Game_getMapFieldByPosition_def split: sum.splits)
  have 1: "update_position w s =
           Inr (if Field_value f \<le> 0
                then s\<lparr>playerX := playerX s + playerAccerlationX s,
                       playerZ := playerZ s + playerAccerlationZ s,
                       playerY := MAX_macro 0 (playerY s + playerAccerlationY s)\<rparr>
                else s\<lparr>playerAccerlationX := - playerAccerlationX s,
                       playerAccerlationZ := - playerAccerlationZ s,
                       playerX := playerX s + - playerAccerlationX s,
                       playerZ := playerZ s + - playerAccerlationZ s,
                       playerY := MAX_macro 0 (playerY s + playerAccerlationY s)\<rparr>)"
    using assms by (simp add: update_position_def Let_def)
  show ?thesis
    using 1 bounce_leaves_cell[OF c] by (simp add: c)
qed

lemma bounceState_reached:
  "main gameMap 0 [KeyboardDown CHR ''d'', Update 1800] = Inr bounceState"
  apply (simp only: main_def Game_onLoad_gameMap sum.case)
  apply (simp add: tick_defs initialGame_def bounceState_def gameMap_def)
  done

text \<open>
  C2. The claim: in no step is the cell of the committed position the wall cell the
  player moved toward. The inverted velocity is applied without a lookup, so a bounce
  can end inside a wall, and a player inside a wall cell stays in it when the bounce is
  short. In \<open>bounceState\<close>, reached by two events from the start, the player is in the
  wall cell (10, 1); in the next step, 199 ms later, the candidate position is in that
  cell, the move is rejected, and the position committed after the bounce is in that
  cell again.
\<close>

theorem collision_inside_wall:
  "main gameMap 0 [KeyboardDown CHR ''d'', Update 1800] = Inr bounceState
   \<and> Game_getMapFieldIndiciesByPosition
        (playerX (before_collision 1999 bounceState)
           + playerAccerlationX (before_collision 1999 bounceState))
        (playerZ (before_collision 1999 bounceState)
           + playerAccerlationZ (before_collision 1999 bounceState)) = Inr (10, 1)
   \<and> Game_getMapFieldByIndicies gameMap 10 1 = Inr Wall
   \<and> Game_onUpdate gameMap 1999 bounceState
       = Inr (bounceState\<lparr>playerX := 9865401 / 1000000,
                playerAccerlationX := - (14599 / 1000000), itemRotationY := 17991 / 200,
                gameBrightness := 1999 / 2000, lastUpdateTime := 1999, currentTimeMs := 999\<rparr>)
   \<and> Game_getMapFieldIndiciesByPosition (9865401 / 1000000) 1 = Inr (10, 1)"
  apply (simp only: bounceState_reached simp_thms)
  apply (simp add: tick_defs initialGame_def bounceState_def gameMap_def)
  done

theorem collision_resolution_witness:
  "Game_getMapFieldByPosition gameMap (7 + - (72 / 25)) (1 + 0) = Inr Wall
   \<and> update_position gameMap
        (initialGame\<lparr>isLoaded := True, playerX := 7, playerZ := 1,
           playerAccerlationX := - (72 / 25)\<rparr>)
      = Inr (initialGame\<lparr>isLoaded := True, playerX := 247 / 25, playerZ := 1,
           playerAccerlationX := 72 / 25\<rparr>)
   \<and> Game_getMapFieldIndiciesByPosition (247 / 25) 1 = Inr (10, 1)
   \<and> Game_getMapFieldIndiciesByPosition (7 + - (72 / 25)) 1 = Inr (4, 1)"
  using collision_resolution [of gameMap
      "initialGame\<lparr>isLoaded := True, playerX := 7, playerZ := 1,
           playerAccerlationX := - (72 / 25)\<rparr>" Wall]
  by (simp add: tick_defs initialGame_def gameMap_def)

subsection \<open>The bounds of the lookups\<close>

text \<open>
  C4. The claim: \<open>Game_getMapFieldByIndicies\<close> terminates the program exactly when \<open>x\<close> is
  outside \<open>[0, width)\<close> or \<open>z\<close> is outside \<open>[0, depth)\<close>. The check of the code compares with
  \<open>>\<close> where the claim (and the comment of the function) need \<open>\<ge>\<close>: with \<open>z = depth = 11\<close>
  the function does not terminate the program, it returns the first field of the next
  row. The game makes such calls: in the run below the player bounces into the border
  cell (2, 10) with the interact key held, the interaction probes the indices
  \<open>z = 11\<close>, and the step runs to its end.
\<close>

theorem Game_getMapFieldByIndicies_depth_accepted:
  "Game_getMapFieldByIndicies gameMap 0 11 = Inr Wall
   \<and> main gameMap 0
       [KeyboardDown CHR ''d'', Update 2340, KeyboardUp CHR ''d'', Update 2540,
        KeyboardDown CHR ''s'', Update 5470, KeyboardUp CHR ''s'', Update 5670,
        KeyboardDown CHR ''w'', KeyboardDown CHR ''e'', Update 6775]
     = Inr (initialGame\<lparr>isLoaded := True, inputForward := True, inputAction := True,
              playerX := 4981 / 2500, playerZ := 399957 / 40000,
              playerAccerlationZ := 40001 / 40000, itemRotationY := 2439 / 8,
              gameBrightness := 1, lastUpdateTime := 6775, currentTimeMs := 775\<rparr>)
   \<and> Game_getMapFieldIndiciesByPosition (4981 / 2500) (399957 / 40000) = Inr (2, 10)
   \<and> probedIndices 2 10
     = [(1, 9), (1, 10), (1, 11), (2, 9), (2, 10), (2, 11), (3, 9), (3, 10), (3, 11)]
   \<and> Game_getMapFieldByIndicies gameMap 1 11 = Inr Wall
   \<and> Game_getMapFieldByIndicies gameMap 2 11 = Inr Wall
   \<and> Game_getMapFieldByIndicies gameMap 3 11 = Inr Wall"
  apply (simp only: main_def Game_onLoad_gameMap sum.case)
  apply (simp add: tick_defs initialGame_def gameMap_def)
  done

text \<open>
  C5. The claim: \<open>Game_getMapFieldByPosition\<close> delegates to the checked lookup, so a
  position whose rounded index is outside the grid terminates the program, in
  particular in the collision step. The code reads the array directly: the position
  \<open>(0, 12)\<close>, whose index \<open>z = 12\<close> is outside \<open>[0, 11)\<close>, yields the field \<open>map[12]\<close> of the
  cell \<open>(1, 1)\<close>. In the run below (the key \<open>w\<close>, then a first step after 2 seconds) the
  candidate position of the collision step is \<open>(7, -2.6)\<close>, with the index \<open>z = -3\<close>; the
  lookup returns \<open>map[74]\<close>, a tile, and the step commits the position outside the
  grid.
\<close>

theorem Game_getMapFieldByPosition_unchecked:
  "Game_getMapFieldByPosition gameMap 0 12 = Inr Tile
   \<and> Game_getMapFieldIndiciesByPosition 7 (- (13 / 5)) = Inr (7, - 3)
   \<and> Game_getMapFieldByPosition gameMap 7 (- (13 / 5)) = Inr Tile
   \<and> main gameMap 0 [KeyboardDown CHR ''w'', Update 2000]
     = Inr (initialGame\<lparr>isLoaded := True, inputForward := True, playerX := 7,
              playerZ := - (13 / 5), playerAccerlationZ := - (18 / 5), itemRotationY := 90,
              gameBrightness := 1, lastUpdateTime := 2000\<rparr>)"
  apply (simp only: main_def Game_onLoad_gameMap sum.case)
  apply (simp add: tick_defs initialGame_def gameMap_def)
  done

subsection \<open>Ties of the rounding\<close>

lemma ceiling_minus_one_real [simp]: "\<lceil>- 1 :: real\<rceil> = - 1"
  using ceiling_of_int [of "- 1", where ?'a = real] by simp

text \<open>
  C10. The conversion of a position to indices resolves ties away from zero: for all
  \<open>k, j\<close> with \<open>0 \<le> k, j < 2^23\<close> (the integers for which \<open>k + 0.5\<close> is a value of a C
  \<open>float\<close>), \<open>Game_getMapFieldIndiciesByPosition\<close> maps the coordinates \<open>k + 0.5\<close> and
  \<open>j + 0.5\<close> to the indices \<open>k + 1\<close> and \<open>j + 1\<close>, and \<open>-(k + 0.5)\<close>, \<open>-(j + 0.5)\<close> to \<open>-(k + 1)\<close>,
  \<open>-(j + 1)\<close>. The lookup of the collision step reads the array at these indices, for
  positive and for negative ties, and the interaction step probes the block centred
  on the cell \<open>(k + 1, j + 1)\<close> of a player standing at \<open>(k + 0.5, j + 0.5)\<close>.
\<close>

theorem ties_away_from_zero:
  assumes "0 \<le> k" "k < 2 ^ 23" "0 \<le> j" "j < 2 ^ 23"
  shows "Game_getMapFieldIndiciesByPosition (of_int k + 1 / 2) (of_int j + 1 / 2)
            = Inr (k + 1, j + 1)
    \<and> Game_getMapFieldIndiciesByPosition (- (of_int k + 1 / 2)) (- (of_int j + 1 / 2))
            = Inr (- (k + 1), - (j + 1))
    \<and> Game_getMapFieldByPosition w (of_int k + 1 / 2) (of_int j + 1 / 2)
            = map_read w ((k + 1) * mapDepth w + (j + 1))
    \<and> Game_getMapFieldByPosition w (- (of_int k + 1 / 2)) (of_int j + 1 / 2)
            = map_read w (- (k + 1) * mapDepth w + (j + 1))
    \<and> (inputAction s \<and> playerX s = of_int k + 1 / 2 \<and> playerZ s = of_int j + 1 / 2 \<longrightarrow>
           update_interaction w s =
            (case probeFields w (probedIndices (k + 1) (j + 1)) (itemState s) of
               Inl e \<Rightarrow> Inl e
             | Inr st \<Rightarrow> Inr (s\<lparr>itemState := st\<rparr>)))"
proof -
  have r: "roundf (of_int i + 1 / 2) = of_int (i + 1)"
    "roundf (- (of_int i + 1 / 2)) = of_int (- (i + 1))" if "0 \<le> i" for i
    using that by (simp_all add: roundf_def)
  have pp: "Game_getMapFieldIndiciesByPosition (of_int k + 1 / 2) (of_int j + 1 / 2)
      = Inr (k + 1, j + 1)"
    using assms by (intro indices_of_ints r) simp_all
  have nn: "Game_getMapFieldIndiciesByPosition (- (of_int k + 1 / 2)) (- (of_int j + 1 / 2))
      = Inr (- (k + 1), - (j + 1))"
    using assms by (intro indices_of_ints r) simp_all
  have np: "Game_getMapFieldIndiciesByPosition (- (of_int k + 1 / 2)) (of_int j + 1 / 2)
      = Inr (- (k + 1), j + 1)"
    using assms by (intro indices_of_ints r) simp_all
  show ?thesis
    using assms pp nn np by (simp add: Game_getMapFieldByPosition_def update_interaction_def)
qed

theorem ties_away_from_zero_witness:
  "Game_getMapFieldIndiciesByPosition (of_int 10 + 1 / 2) (of_int 8 + 1 / 2) = Inr (11, 9)
   \<and> Game_getMapFieldIndiciesByPosition (- (of_int 10 + 1 / 2)) (- (of_int 8 + 1 / 2))
       = Inr (- 11, - 9)
   \<and> Game_getMapFieldByPosition gameMap (of_int 10 + 1 / 2) (of_int 8 + 1 / 2) = Inr Wall
   \<and> Game_getMapFieldByIndicies gameMap 10 8 = Inr Tile
   \<and> Game_getMapFieldByPosition gameMap (- (of_int 0 + 1 / 2)) (of_int 11 + 1 / 2) = Inr Wall
   \<and> map_read gameMap 12 = Inr Tile
   \<and> update_interaction gameMap
        (initialGame\<lparr>inputAction := True, playerX := of_int 10 + 1 / 2,
           playerZ := of_int 8 + 1 / 2\<rparr>)
      = Inr (initialGame\<lparr>inputAction := True, playerX := of_int 10 + 1 / 2,
           playerZ := of_int 8 + 1 / 2, itemState := Held\<rparr>)
   \<and> probeFields gameMap (probedIndices 10 8) Initial = Inr Initial"
  using ties_away_from_zero [of 10 8 gameMap
      "initialGame\<lparr>inputAction := True, playerX := of_int 10 + 1 / 2,
           playerZ := of_int 8 + 1 / 2\<rparr>"]
    ties_away_from_zero [of 0 11 gameMap initialGame]
  by (simp add: tick_defs initialGame_def gameMap_def)

subsection \<open>Brightness\<close>

lemma run_append:
  "run w (es @ es') s = (case run w es s of Inl e \<Rightarrow> Inl e | Inr s1 \<Rightarrow> run w es' s1)"
proof (induction es arbitrary: s)
  case Nil
  then show ?case by simp
next
  case (Cons e es)
  show ?case
  proof (cases "mainLoopLeft s")
    case True
    then show ?thesis by (cases es') simp_all
  next
    case False
    then show ?thesis using Cons.IH by (simp split: sum.splits)
  qed
qed

text \<open>The invariant of the brightness.\<close>

lemma update_brightness_bounds:
  assumes "0 \<le> dt" "gameBrightness s \<le> 1" "lastUpdateTime s \<ge> t0"
    and "itemState s \<noteq> Dropped \<longrightarrow> 0 \<le> gameBrightness s"
    and "itemState s = Initial \<longrightarrow>
           gameBrightness s = MIN_macro 1 (FADEOUT_SPEED * T)"
  shows "gameBrightness (update_brightness dt s) \<le> 1"
    and "itemState s \<noteq> Dropped \<longrightarrow> 0 \<le> gameBrightness (update_brightness dt s)"
    and "itemState s = Initial \<longrightarrow>
           gameBrightness (update_brightness dt s) = MIN_macro 1 (FADEOUT_SPEED * (T + dt))"
  using assms
  by (auto simp: update_brightness_def MIN_macro_def FADEOUT_SPEED_def Game_onDestroy_def
      algebra_simps split: if_splits)


lemma ItemState_value_simps:
  "ItemState_value st \<le> ItemState_value Initial \<longleftrightarrow> st = Initial"
  "ItemState_value Dropped \<le> ItemState_value st \<longleftrightarrow> st = Dropped"
  by (cases st; simp)+

lemma Game_onUpdate_brightness:
  assumes u: "Game_onUpdate w t s = Inr s'" and le: "lastUpdateTime s \<le> t"
    and inv: "t0 \<le> lastUpdateTime s" "gameBrightness s \<le> 1"
      "itemState s \<noteq> Dropped \<longrightarrow> 0 \<le> gameBrightness s"
      "itemState s = Initial \<longrightarrow>
         gameBrightness s = MIN_macro 1 (FADEOUT_SPEED * (of_int (lastUpdateTime s - t0) / 1000))"
  shows "t0 \<le> lastUpdateTime s' \<and> gameBrightness s' \<le> 1
    \<and> (itemState s' \<noteq> Dropped \<longrightarrow> 0 \<le> gameBrightness s')
    \<and> (itemState s' = Initial \<longrightarrow>
         gameBrightness s' = MIN_macro 1 (FADEOUT_SPEED * (of_int (lastUpdateTime s' - t0) / 1000)))"
proof -
  let ?dt = "deltaSeconds_of t s"
  have dt: "0 \<le> ?dt" using le by (simp add: deltaSeconds_of_def)
  have T: "of_int (lastUpdateTime s - t0) / 1000 + ?dt = of_int (t - t0) / 1000"
    by (simp add: deltaSeconds_of_def field_simps)
  note f = Game_onUpdate_frame[OF u]
  note b = update_brightness_bounds[OF dt inv(2) inv(1) inv(3) inv(4)]
  have mono: "ItemState_value (itemState s) \<le> ItemState_value (itemState s')"
    by (rule Game_onUpdate_mono[OF u])
  have d: "itemState s \<noteq> Dropped" if "itemState s' \<noteq> Dropped"
    using mono that by (cases "itemState s"; cases "itemState s'") simp_all
  have i: "itemState s = Initial" if "itemState s' = Initial"
    using mono that by (cases "itemState s"; cases "itemState s'") simp_all
  have 1: "t0 \<le> lastUpdateTime s'" using f(3) inv(1) le by simp
  have 2: "gameBrightness s' \<le> 1" using f(1) b(1) by simp
  have 3: "0 \<le> gameBrightness s'" if "itemState s' \<noteq> Dropped"
    using f(1) b(2) d[OF that] by simp
  have 4: "gameBrightness s' = MIN_macro 1 (FADEOUT_SPEED * (of_int (lastUpdateTime s' - t0) / 1000))"
    if "itemState s' = Initial"
  proof -
    have "gameBrightness s' = MIN_macro 1 (FADEOUT_SPEED * (of_int (lastUpdateTime s - t0) / 1000 + ?dt))"
      using f(1) b(3) i[OF that] by simp
    then show ?thesis by (simp only: T f(3))
  qed
  show ?thesis using 1 2 3 4 by blast
qed

lemma dispatch_brightness:
  assumes d: "dispatch w e s = Inr s'" and nn: "nonnegative_deltas (lastUpdateTime s) (e # es)"
    and inv: "t0 \<le> lastUpdateTime s" "gameBrightness s \<le> 1"
      "itemState s \<noteq> Dropped \<longrightarrow> 0 \<le> gameBrightness s"
      "itemState s = Initial \<longrightarrow>
         gameBrightness s = MIN_macro 1 (FADEOUT_SPEED * (of_int (lastUpdateTime s - t0) / 1000))"
  shows "nonnegative_deltas (lastUpdateTime s') es \<and> t0 \<le> lastUpdateTime s'
    \<and> gameBrightness s' \<le> 1
    \<and> (itemState s' \<noteq> Dropped \<longrightarrow> 0 \<le> gameBrightness s')
    \<and> (itemState s' = Initial \<longrightarrow>
         gameBrightness s' = MIN_macro 1 (FADEOUT_SPEED * (of_int (lastUpdateTime s' - t0) / 1000)))"
proof (cases e)
  case (Update t)
  with d nn have u: "Game_onUpdate w t s = Inr s'" and le: "lastUpdateTime s \<le> t"
    and rest: "nonnegative_deltas t es" by simp_all
  from Game_onUpdate_brightness[OF u le inv] Game_onUpdate_frame(3)[OF u] rest
  show ?thesis by simp
next
  case (KeyboardDown k)
  with d nn inv show ?thesis
    by (auto simp: Game_onKeyboardDown_def Game_onDestroy_def split: if_splits)
next
  case (KeyboardUp k)
  with d nn inv show ?thesis
    by (auto simp: Game_onKeyboardUp_def split: if_splits)
next
  case (MouseMove x y)
  with d nn inv show ?thesis by (auto simp: Game_onMouseMove_def)
next
  case (Resize x y)
  with d nn inv show ?thesis by (auto simp: Game_onResize_def)
qed

lemma run_brightness:
  assumes "run w es s = Inr s'" "nonnegative_deltas (lastUpdateTime s) es"
    and "t0 \<le> lastUpdateTime s" "gameBrightness s \<le> 1"
      "itemState s \<noteq> Dropped \<longrightarrow> 0 \<le> gameBrightness s"
      "itemState s = Initial \<longrightarrow>
         gameBrightness s = MIN_macro 1 (FADEOUT_SPEED * (of_int (lastUpdateTime s - t0) / 1000))"
  shows "t0 \<le> lastUpdateTime s' \<and> gameBrightness s' \<le> 1
    \<and> (itemState s' \<noteq> Dropped \<longrightarrow> 0 \<le> gameBrightness s')
    \<and> (itemState s' = Initial \<longrightarrow>
         gameBrightness s' = MIN_macro 1 (FADEOUT_SPEED * (of_int (lastUpdateTime s' - t0) / 1000)))"
  using assms
proof (induction es arbitrary: s)
  case Nil
  then show ?case by simp
next
  case (Cons e es)
  show ?case
  proof (cases "mainLoopLeft s")
    case True
    with Cons.prems show ?thesis by simp
  next
    case False
    with Cons.prems(1) obtain s1 where d: "dispatch w e s = Inr s1"
      and r: "run w es s1 = Inr s'"
      by (auto split: sum.splits)
    from dispatch_brightness[OF d Cons.prems(2-6)]
    have "nonnegative_deltas (lastUpdateTime s1) es" "t0 \<le> lastUpdateTime s1"
      "gameBrightness s1 \<le> 1" "itemState s1 \<noteq> Dropped \<longrightarrow> 0 \<le> gameBrightness s1"
      "itemState s1 = Initial \<longrightarrow>
         gameBrightness s1 = MIN_macro 1 (FADEOUT_SPEED * (of_int (lastUpdateTime s1 - t0) / 1000))"
      by simp_all
    from Cons.IH[OF r this] show ?thesis .
  qed
qed

lemma main_brightness:
  assumes "nonnegative_deltas t0 es" and "main w t0 es = Inr s"
  shows "gameBrightness s \<le> 1"
    and "itemState s \<noteq> Dropped \<longrightarrow> 0 \<le> gameBrightness s"
    and "itemState s = Initial \<longrightarrow>
         gameBrightness s = MIN_macro 1 (FADEOUT_SPEED * (of_int (lastUpdateTime s - t0) / 1000))"
proof -
  from assms(2) obtain s0 where l: "Game_onLoad w t0 initialGame = Inr s0"
    and r: "run w es s0 = Inr s"
    by (auto simp: main_def split: sum.splits)
  from l have s0: "lastUpdateTime s0 = t0" "gameBrightness s0 = 0" "itemState s0 = Initial"
    by (auto simp: Game_onLoad_eq initialGame_def split: if_splits)
  have "t0 \<le> lastUpdateTime s \<and> gameBrightness s \<le> 1
    \<and> (itemState s \<noteq> Dropped \<longrightarrow> 0 \<le> gameBrightness s)
    \<and> (itemState s = Initial \<longrightarrow>
         gameBrightness s = MIN_macro 1 (FADEOUT_SPEED * (of_int (lastUpdateTime s - t0) / 1000)))"
    using assms(1) s0 by (intro run_brightness[OF r]) (simp_all add: MIN_macro_def)
  then show "gameBrightness s \<le> 1"
    and "itemState s \<noteq> Dropped \<longrightarrow> 0 \<le> gameBrightness s"
    and "itemState s = Initial \<longrightarrow>
         gameBrightness s = MIN_macro 1 (FADEOUT_SPEED * (of_int (lastUpdateTime s - t0) / 1000))"
    by simp_all
qed

lemma dispatch_isLoaded:
  assumes "dispatch w e s = Inr s'" "isLoaded s"
  shows "isLoaded s'"
proof (cases e)
  case (Update t)
  with assms Game_onUpdate_frame(5) show ?thesis by simp
next
  case (KeyboardDown k)
  with assms show ?thesis
    by (auto simp: Game_onKeyboardDown_def Game_onDestroy_def split: if_splits)
next
  case (KeyboardUp k)
  with assms show ?thesis
    by (auto simp: Game_onKeyboardUp_def split: if_splits)
next
  case (MouseMove x y)
  with assms show ?thesis by (auto simp: Game_onMouseMove_def)
next
  case (Resize x y)
  with assms show ?thesis by (auto simp: Game_onResize_def)
qed

lemma run_isLoaded:
  "run w es s = Inr s' \<Longrightarrow> isLoaded s \<Longrightarrow> isLoaded s'"
proof (induction es arbitrary: s)
  case Nil
  then show ?case by simp
next
  case (Cons e es)
  show ?case
  proof (cases "mainLoopLeft s")
    case True
    with Cons.prems show ?thesis by simp
  next
    case False
    with Cons.prems(1) obtain s1 where d: "dispatch w e s = Inr s1"
      and r: "run w es s1 = Inr s'"
      by (auto split: sum.splits)
    from Cons.IH[OF r dispatch_isLoaded[OF d Cons.prems(2)]] show ?thesis .
  qed
qed

lemma main_isLoaded:
  assumes "main w t0 es = Inr s"
  shows "isLoaded s"
proof -
  from assms obtain s0 where l: "Game_onLoad w t0 initialGame = Inr s0"
    and r: "run w es s0 = Inr s"
    by (auto simp: main_def split: sum.splits)
  from l have "isLoaded s0"
    by (auto simp: Game_onLoad_eq split: if_splits)
  with r show ?thesis by (rule run_isLoaded)
qed

lemma run_mainLoopLeft: "mainLoopLeft s \<Longrightarrow> run w es s = Inr s"
  by (cases es) simp_all

text \<open>
  C3, amended. For every list of events whose steps have non-negative
  \<open>deltaSeconds\<close>, run from the start of the game, the brightness is at most 1, and it
  is at least 0 as long as the item is not delivered (state \<open>Initial\<close> or \<open>Held\<close>). A
  further step with non-negative \<open>deltaSeconds\<close> that runs to its end changes the
  brightness as follows. In state \<open>Initial\<close> it becomes
  \<open>min 1 (brightness + 0.5 * deltaSeconds)\<close>: it never decreases, and it stays 1 once it
  is 1. In state \<open>Held\<close> it is unchanged. In state \<open>Dropped\<close> with a positive
  brightness, \<open>0.5 * deltaSeconds\<close> is subtracted with no lower bound, so the result
  may be negative (above \<open>-0.5 * deltaSeconds\<close>), and the main loop goes on. In state
  \<open>Dropped\<close> with a brightness of 0 or less the step leaves the main loop: the session
  ends, and no further event is dispatched.
\<close>

theorem brightness_bounds:
  assumes "nonnegative_deltas t0 es" and "main w t0 es = Inr s"
  shows "gameBrightness s \<le> 1
    \<and> (itemState s \<noteq> Dropped \<longrightarrow> 0 \<le> gameBrightness s)
    \<and> (lastUpdateTime s \<le> t \<and> Game_onUpdate w t s = Inr s' \<longrightarrow>
         (itemState s = Initial \<longrightarrow>
            gameBrightness s'
              = MIN_macro 1 (gameBrightness s + FADEOUT_SPEED * deltaSeconds_of t s)
            \<and> gameBrightness s \<le> gameBrightness s'
            \<and> (gameBrightness s = 1 \<longrightarrow> gameBrightness s' = 1))
       \<and> (itemState s = Held \<longrightarrow> gameBrightness s' = gameBrightness s)
       \<and> (itemState s = Dropped \<and> 0 < gameBrightness s \<longrightarrow>
            gameBrightness s' = gameBrightness s - FADEOUT_SPEED * deltaSeconds_of t s
            \<and> - (FADEOUT_SPEED * deltaSeconds_of t s) < gameBrightness s'
            \<and> mainLoopLeft s' = mainLoopLeft s)
       \<and> (itemState s = Dropped \<and> gameBrightness s \<le> 0 \<longrightarrow>
            mainLoopLeft s' \<and> gameBrightness s' = gameBrightness s
            \<and> run w es' s' = Inr s'))"
proof -
  note b = main_brightness[OF assms]
  have step: "(itemState s = Initial \<longrightarrow>
            gameBrightness s'
              = MIN_macro 1 (gameBrightness s + FADEOUT_SPEED * deltaSeconds_of t s)
            \<and> gameBrightness s \<le> gameBrightness s'
            \<and> (gameBrightness s = 1 \<longrightarrow> gameBrightness s' = 1))
       \<and> (itemState s = Held \<longrightarrow> gameBrightness s' = gameBrightness s)
       \<and> (itemState s = Dropped \<and> 0 < gameBrightness s \<longrightarrow>
            gameBrightness s' = gameBrightness s - FADEOUT_SPEED * deltaSeconds_of t s
            \<and> - (FADEOUT_SPEED * deltaSeconds_of t s) < gameBrightness s'
            \<and> mainLoopLeft s' = mainLoopLeft s)
       \<and> (itemState s = Dropped \<and> gameBrightness s \<le> 0 \<longrightarrow>
            mainLoopLeft s' \<and> gameBrightness s' = gameBrightness s
            \<and> run w es' s' = Inr s')"
    if le: "lastUpdateTime s \<le> t" and u: "Game_onUpdate w t s = Inr s'"
  proof -
    let ?dt = "deltaSeconds_of t s"
    have dt: "0 \<le> ?dt" using le by (simp add: deltaSeconds_of_def)
    note f = Game_onUpdate_frame(1,2)[OF u]
    have l: "isLoaded s" by (rule main_isLoaded[OF assms(2)])
    have i: "gameBrightness s' = MIN_macro 1 (gameBrightness s + FADEOUT_SPEED * ?dt)
        \<and> gameBrightness s \<le> gameBrightness s'
        \<and> (gameBrightness s = 1 \<longrightarrow> gameBrightness s' = 1)"
      if "itemState s = Initial"
      using that f(1) b(1) dt
      by (auto simp: update_brightness_def MIN_macro_def FADEOUT_SPEED_def)
    have h: "gameBrightness s' = gameBrightness s" if "itemState s = Held"
      using that f(1) by (simp add: update_brightness_def)
    have d1: "gameBrightness s' = gameBrightness s - FADEOUT_SPEED * ?dt
        \<and> - (FADEOUT_SPEED * ?dt) < gameBrightness s' \<and> mainLoopLeft s' = mainLoopLeft s"
      if "itemState s = Dropped" "0 < gameBrightness s"
      using that f by (simp add: update_brightness_def)
    have d2: "mainLoopLeft s' \<and> gameBrightness s' = gameBrightness s \<and> run w es' s' = Inr s'"
      if "itemState s = Dropped" "gameBrightness s \<le> 0"
    proof -
      have "mainLoopLeft s'" "gameBrightness s' = gameBrightness s"
        using that f l by (simp_all add: update_brightness_def Game_onDestroy_def)
      then show ?thesis by (simp add: run_mainLoopLeft)
    qed
    show ?thesis using i h d1 d2 by blast
  qed
  show ?thesis using b(1,2) step by blast
qed

theorem brightness_bounds_witness:
  "nonnegative_deltas 0
     [KeyboardDown CHR ''a'', Update 2340, KeyboardUp CHR ''a'', Update 2540,
      KeyboardDown CHR ''s'', KeyboardDown CHR ''e'', Update 5288,
      KeyboardUp CHR ''s'', Update 5488,
      KeyboardDown CHR ''d'', Update 8040, KeyboardUp CHR ''d'', Update 8240,
      KeyboardDown CHR ''w'', Update 10792, KeyboardUp CHR ''w'', Update 10992,
      Update 12992]
   \<and> main gameMap 0
     [KeyboardDown CHR ''a'', Update 2340, KeyboardUp CHR ''a'', Update 2540,
      KeyboardDown CHR ''s'', KeyboardDown CHR ''e'', Update 5288,
      KeyboardUp CHR ''s'', Update 5488,
      KeyboardDown CHR ''d'', Update 8040, KeyboardUp CHR ''d'', Update 8240,
      KeyboardDown CHR ''w'', Update 10792, KeyboardUp CHR ''w'', Update 10992,
      Update 12992]
     = Inr (initialGame\<lparr>isLoaded := True, inputAction := True, playerX := 375331 / 62500,
            playerZ := 4999 / 2500, itemRotationY := 14616 / 25, itemState := Dropped,
            gameBrightness := - (1 / 10), lastUpdateTime := 12992, currentTimeMs := 992\<rparr>)
   \<and> Game_onUpdate gameMap 13022
       (initialGame\<lparr>isLoaded := True, inputAction := True, playerX := 375331 / 62500,
            playerZ := 4999 / 2500, itemRotationY := 14616 / 25, itemState := Dropped,
            gameBrightness := - (1 / 10), lastUpdateTime := 12992, currentTimeMs := 992\<rparr>)
     = Inr (initialGame\<lparr>isLoaded := True, mainLoopLeft := True, inputAction := True,
            playerX := 375331 / 62500, playerZ := 4999 / 2500, itemRotationY := 58599 / 100,
            itemState := Dropped, gameBrightness := - (1 / 10), lastUpdateTime := 13022,
            currentTimeMs := 22\<rparr>)
   \<and> run gameMap [Update 13052]
       (initialGame\<lparr>isLoaded := True, mainLoopLeft := True, inputAction := True,
            playerX := 375331 / 62500, playerZ := 4999 / 2500, itemRotationY := 58599 / 100,
            itemState := Dropped, gameBrightness := - (1 / 10), lastUpdateTime := 13022,
            currentTimeMs := 22\<rparr>)
     = Inr (initialGame\<lparr>isLoaded := True, mainLoopLeft := True, inputAction := True,
            playerX := 375331 / 62500, playerZ := 4999 / 2500, itemRotationY := 58599 / 100,
            itemState := Dropped, gameBrightness := - (1 / 10), lastUpdateTime := 13022,
            currentTimeMs := 22\<rparr>)
   \<and> nonnegative_deltas 0 [Update 1000]
   \<and> main gameMap 0 [Update 1000]
     = Inr (initialGame\<lparr>isLoaded := True, playerX := 7, playerZ := 1, itemRotationY := 45,
            gameBrightness := 1 / 2, lastUpdateTime := 1000\<rparr>)
   \<and> Game_onUpdate gameMap 2500
       (initialGame\<lparr>isLoaded := True, playerX := 7, playerZ := 1, itemRotationY := 45,
            gameBrightness := 1 / 2, lastUpdateTime := 1000\<rparr>)
     = Inr (initialGame\<lparr>isLoaded := True, playerX := 7, playerZ := 1, itemRotationY := 225 / 2,
            gameBrightness := 1, lastUpdateTime := 2500, currentTimeMs := 500\<rparr>)"
  using brightness_bounds [of 0
      "[KeyboardDown CHR ''a'', Update 2340, KeyboardUp CHR ''a'', Update 2540,
        KeyboardDown CHR ''s'', KeyboardDown CHR ''e'', Update 5288,
        KeyboardUp CHR ''s'', Update 5488,
        KeyboardDown CHR ''d'', Update 8040, KeyboardUp CHR ''d'', Update 8240,
        KeyboardDown CHR ''w'', Update 10792, KeyboardUp CHR ''w'', Update 10992,
        Update 12992]" gameMap
      "initialGame\<lparr>isLoaded := True, inputAction := True, playerX := 375331 / 62500,
            playerZ := 4999 / 2500, itemRotationY := 14616 / 25, itemState := Dropped,
            gameBrightness := - (1 / 10), lastUpdateTime := 12992, currentTimeMs := 992\<rparr>"
      13022
      "initialGame\<lparr>isLoaded := True, mainLoopLeft := True, inputAction := True,
            playerX := 375331 / 62500, playerZ := 4999 / 2500, itemRotationY := 58599 / 100,
            itemState := Dropped, gameBrightness := - (1 / 10), lastUpdateTime := 13022,
            currentTimeMs := 22\<rparr>"
      "[Update 13052]"]
    brightness_bounds [of 0 "[Update 1000]" gameMap
      "initialGame\<lparr>isLoaded := True, playerX := 7, playerZ := 1, itemRotationY := 45,
            gameBrightness := 1 / 2, lastUpdateTime := 1000\<rparr>"
      2500
      "initialGame\<lparr>isLoaded := True, playerX := 7, playerZ := 1, itemRotationY := 225 / 2,
            gameBrightness := 1, lastUpdateTime := 2500, currentTimeMs := 500\<rparr>"
      "[]"]
  apply (simp only: main_def Game_onLoad_gameMap sum.case)
  apply (simp add: tick_defs initialGame_def gameMap_def)
  done

text \<open>
  C3. The claim: the brightness stays within [0, 1] at all times, also during the
  fade-out in state \<open>Dropped\<close>. The fade-out subtracts \<open>FADEOUT_SPEED * deltaSeconds\<close>
  whenever the brightness is positive, without a lower bound, and the game ends in the
  step after the brightness has reached or passed 0. In the run below the player
  fetches the item (third step), delivers it (seventh step), and after the ninth step
  the brightness is -0.1.
\<close>

theorem brightness_negative_after_delivery:
  "main gameMap 0
     [KeyboardDown CHR ''a'', Update 2340, KeyboardUp CHR ''a'', Update 2540,
      KeyboardDown CHR ''s'', KeyboardDown CHR ''e'', Update 5288,
      KeyboardUp CHR ''s'', Update 5488,
      KeyboardDown CHR ''d'', Update 8040, KeyboardUp CHR ''d'', Update 8240,
      KeyboardDown CHR ''w'', Update 10792, KeyboardUp CHR ''w'', Update 10992,
      Update 12992]
   = Inr (initialGame\<lparr>isLoaded := True, inputAction := True, playerX := 375331 / 62500,
            playerZ := 4999 / 2500, itemRotationY := 14616 / 25, itemState := Dropped,
            gameBrightness := - (1 / 10), lastUpdateTime := 12992, currentTimeMs := 992\<rparr>)"
  apply (simp only: main_def Game_onLoad_gameMap sum.case)
  apply (simp add: tick_defs initialGame_def gameMap_def)
  done

text \<open>
  The amended statement names no time at which the fade-in reaches 1. In exact
  arithmetic, steps whose \<open>deltaSeconds\<close> sum to 2 seconds bring the brightness to 1
  (\<open>main_brightness\<close>); the code adds in binary32 and can stay below: after 40 steps of
  50 ms, which sum to exactly 2 seconds, its brightness is 16777209/16777216.
\<close>

lemma fade_in_binary32_two_seconds:
  "(fade_in_binary32 50 ^^ 40) 0 = 16777209 / 16777216 \<and> (16777209 / 16777216 :: real) < 1"
proof -
  have s1: "fade_in_binary32 50 (0) = 13421773 / 536870912" by code_simp
  have s2: "fade_in_binary32 50 (13421773 / 536870912) = 13421773 / 268435456" by code_simp
  have s3: "fade_in_binary32 50 (13421773 / 268435456) = 5033165 / 67108864" by code_simp
  have s4: "fade_in_binary32 50 (5033165 / 67108864) = 13421773 / 134217728" by code_simp
  have s5: "fade_in_binary32 50 (13421773 / 134217728) = 1 / 8" by code_simp
  have s6: "fade_in_binary32 50 (1 / 8) = 5033165 / 33554432" by code_simp
  have s7: "fade_in_binary32 50 (5033165 / 33554432) = 2936013 / 16777216" by code_simp
  have s8: "fade_in_binary32 50 (2936013 / 16777216) = 6710887 / 33554432" by code_simp
  have s9: "fade_in_binary32 50 (6710887 / 33554432) = 1887437 / 8388608" by code_simp
  have s10: "fade_in_binary32 50 (1887437 / 8388608) = 8388609 / 33554432" by code_simp
  have s11: "fade_in_binary32 50 (8388609 / 33554432) = 4613735 / 16777216" by code_simp
  have s12: "fade_in_binary32 50 (4613735 / 16777216) = 10066331 / 33554432" by code_simp
  have s13: "fade_in_binary32 50 (10066331 / 33554432) = 1363149 / 4194304" by code_simp
  have s14: "fade_in_binary32 50 (1363149 / 4194304) = 11744053 / 33554432" by code_simp
  have s15: "fade_in_binary32 50 (11744053 / 33554432) = 6291457 / 16777216" by code_simp
  have s16: "fade_in_binary32 50 (6291457 / 16777216) = 13421775 / 33554432" by code_simp
  have s17: "fade_in_binary32 50 (13421775 / 33554432) = 3565159 / 8388608" by code_simp
  have s18: "fade_in_binary32 50 (3565159 / 8388608) = 15099497 / 33554432" by code_simp
  have s19: "fade_in_binary32 50 (15099497 / 33554432) = 7969179 / 16777216" by code_simp
  have s20: "fade_in_binary32 50 (7969179 / 16777216) = 8388609 / 16777216" by code_simp
  have s21: "fade_in_binary32 50 (8388609 / 16777216) = 8808039 / 16777216" by code_simp
  have s22: "fade_in_binary32 50 (8808039 / 16777216) = 9227469 / 16777216" by code_simp
  have s23: "fade_in_binary32 50 (9227469 / 16777216) = 9646899 / 16777216" by code_simp
  have s24: "fade_in_binary32 50 (9646899 / 16777216) = 10066329 / 16777216" by code_simp
  have s25: "fade_in_binary32 50 (10066329 / 16777216) = 10485759 / 16777216" by code_simp
  have s26: "fade_in_binary32 50 (10485759 / 16777216) = 10905189 / 16777216" by code_simp
  have s27: "fade_in_binary32 50 (10905189 / 16777216) = 11324619 / 16777216" by code_simp
  have s28: "fade_in_binary32 50 (11324619 / 16777216) = 11744049 / 16777216" by code_simp
  have s29: "fade_in_binary32 50 (11744049 / 16777216) = 12163479 / 16777216" by code_simp
  have s30: "fade_in_binary32 50 (12163479 / 16777216) = 12582909 / 16777216" by code_simp
  have s31: "fade_in_binary32 50 (12582909 / 16777216) = 13002339 / 16777216" by code_simp
  have s32: "fade_in_binary32 50 (13002339 / 16777216) = 13421769 / 16777216" by code_simp
  have s33: "fade_in_binary32 50 (13421769 / 16777216) = 13841199 / 16777216" by code_simp
  have s34: "fade_in_binary32 50 (13841199 / 16777216) = 14260629 / 16777216" by code_simp
  have s35: "fade_in_binary32 50 (14260629 / 16777216) = 14680059 / 16777216" by code_simp
  have s36: "fade_in_binary32 50 (14680059 / 16777216) = 15099489 / 16777216" by code_simp
  have s37: "fade_in_binary32 50 (15099489 / 16777216) = 15518919 / 16777216" by code_simp
  have s38: "fade_in_binary32 50 (15518919 / 16777216) = 15938349 / 16777216" by code_simp
  have s39: "fade_in_binary32 50 (15938349 / 16777216) = 16357779 / 16777216" by code_simp
  have s40: "fade_in_binary32 50 (16357779 / 16777216) = 16777209 / 16777216" by code_simp
  have "(fade_in_binary32 50 ^^ 40) 0 = 16777209 / 16777216"
    by (simp add: numeral_eq_Suc
        s1 s2 s3 s4 s5 s6 s7 s8 s9 s10
        s11 s12 s13 s14 s15 s16 s17 s18 s19 s20
        s21 s22 s23 s24 s25 s26 s27 s28 s29 s30
        s31 s32 s33 s34 s35 s36 s37 s38 s39 s40)
  then show ?thesis by simp
qed

subsection \<open>The fade-in\<close>

lemma update_animation_motion [simp]:
  "inputForward (update_animation t dt s) = inputForward s"
  "inputRight (update_animation t dt s) = inputRight s"
  "inputBackwards (update_animation t dt s) = inputBackwards s"
  "inputLeft (update_animation t dt s) = inputLeft s"
  "playerX (update_animation t dt s) = playerX s"
  "playerZ (update_animation t dt s) = playerZ s"
  "playerAccerlationX (update_animation t dt s) = playerAccerlationX s"
  "playerAccerlationZ (update_animation t dt s) = playerAccerlationZ s"
  by (simp_all add: update_animation_def)

lemma update_brightness_motion [simp]:
  "inputForward (update_brightness dt s) = inputForward s"
  "inputRight (update_brightness dt s) = inputRight s"
  "inputBackwards (update_brightness dt s) = inputBackwards s"
  "inputLeft (update_brightness dt s) = inputLeft s"
  "playerX (update_brightness dt s) = playerX s"
  "playerZ (update_brightness dt s) = playerZ s"
  "playerAccerlationX (update_brightness dt s) = playerAccerlationX s"
  "playerAccerlationZ (update_brightness dt s) = playerAccerlationZ s"
  by (simp_all add: update_brightness_def Game_onDestroy_def)

lemma update_rotation_motion [simp]:
  "inputForward (update_rotation dt s) = inputForward s"
  "inputRight (update_rotation dt s) = inputRight s"
  "inputBackwards (update_rotation dt s) = inputBackwards s"
  "inputLeft (update_rotation dt s) = inputLeft s"
  "playerX (update_rotation dt s) = playerX s"
  "playerZ (update_rotation dt s) = playerZ s"
  "playerAccerlationX (update_rotation dt s) = playerAccerlationX s"
  "playerAccerlationZ (update_rotation dt s) = playerAccerlationZ s"
  by (simp_all add: update_rotation_def Let_def)

lemma update_vertical_motion [simp]:
  "inputForward (update_vertical dt s) = inputForward s"
  "inputRight (update_vertical dt s) = inputRight s"
  "inputBackwards (update_vertical dt s) = inputBackwards s"
  "inputLeft (update_vertical dt s) = inputLeft s"
  "playerX (update_vertical dt s) = playerX s"
  "playerZ (update_vertical dt s) = playerZ s"
  "playerAccerlationX (update_vertical dt s) = playerAccerlationX s"
  "playerAccerlationZ (update_vertical dt s) = playerAccerlationZ s"
  by (simp_all add: update_vertical_def)

lemma update_friction_motion [simp]:
  "inputForward (update_friction dt s) = inputForward s"
  "inputRight (update_friction dt s) = inputRight s"
  "inputBackwards (update_friction dt s) = inputBackwards s"
  "inputLeft (update_friction dt s) = inputLeft s"
  "playerX (update_friction dt s) = playerX s"
  "playerZ (update_friction dt s) = playerZ s"
  "playerAccerlationX (update_friction dt s)
     = playerAccerlationX s - playerAccerlationX s * (dt * PLAYER_FRICTION)"
  "playerAccerlationZ (update_friction dt s)
     = playerAccerlationZ s - playerAccerlationZ s * (dt * PLAYER_FRICTION)"
  by (simp_all add: update_friction_def)

lemma update_accerlation_motion [simp]:
  "inputForward (update_accerlation dt s) = inputForward s"
  "inputRight (update_accerlation dt s) = inputRight s"
  "inputBackwards (update_accerlation dt s) = inputBackwards s"
  "inputLeft (update_accerlation dt s) = inputLeft s"
  "playerX (update_accerlation dt s) = playerX s"
  "playerZ (update_accerlation dt s) = playerZ s"
  "playerAccerlationX (update_accerlation dt s)
     = playerAccerlationX s + fst (newAccerlation s) * (dt * PLAYER_MAX_SPEED)"
  "playerAccerlationZ (update_accerlation dt s)
     = playerAccerlationZ s + snd (newAccerlation s) * (dt * PLAYER_MAX_SPEED)"
  by (simp_all add: update_accerlation_def split: prod.splits)


lemma newAccerlation_idle:
  assumes "\<not> inputForward s" "\<not> inputRight s" "\<not> inputBackwards s" "\<not> inputLeft s"
  shows "newAccerlation s = (0, 0)"
  using assms by (simp add: newAccerlation_def newAxisAccerlation_def)

lemma before_collision_idle:
  assumes "\<not> inputForward s" "\<not> inputRight s" "\<not> inputBackwards s" "\<not> inputLeft s"
    "playerAccerlationX s = 0" "playerAccerlationZ s = 0"
  shows "playerAccerlationX (before_collision t s) = 0"
    "playerAccerlationZ (before_collision t s) = 0"
    "playerX (before_collision t s) = playerX s"
    "playerZ (before_collision t s) = playerZ s"
    "inputForward (before_collision t s) = inputForward s"
    "inputRight (before_collision t s) = inputRight s"
    "inputBackwards (before_collision t s) = inputBackwards s"
    "inputLeft (before_collision t s) = inputLeft s"
  using assms
  by (simp_all add: before_collision_def Let_def update_motion_def newAccerlation_idle)

lemma update_position_motion:
  assumes "update_position w s = Inr s'"
  shows "inputForward s' = inputForward s" "inputRight s' = inputRight s"
    "inputBackwards s' = inputBackwards s" "inputLeft s' = inputLeft s"
  using assms
  by (auto simp: update_position_def Let_def split: sum.splits if_splits)

lemma update_interaction_motion:
  assumes "update_interaction w s = Inr s'"
  shows "inputForward s' = inputForward s" "inputRight s' = inputRight s"
    "inputBackwards s' = inputBackwards s" "inputLeft s' = inputLeft s"
    "playerAccerlationX s' = playerAccerlationX s" "playerAccerlationZ s' = playerAccerlationZ s"
  using assms
  by (auto simp: update_interaction_def split: sum.splits if_splits prod.splits)

lemma spawn_lookup: "Game_getMapFieldByPosition gameMap 7 1 = Inr Init"
  by (simp add: Game_getMapFieldByPosition_def Game_getMapFieldIndiciesByPosition_def
      roundf_def float_to_int_def map_read_def gameMap_def)

lemma idle_step:
  assumes "\<not> inputForward s" "\<not> inputRight s" "\<not> inputBackwards s" "\<not> inputLeft s"
    "\<not> inputAction s" "playerAccerlationX s = 0" "playerAccerlationZ s = 0"
    "playerX s = 7" "playerZ s = 1"
  shows "\<exists>s'. Game_onUpdate gameMap t s = Inr s'
    \<and> \<not> inputForward s' \<and> \<not> inputRight s' \<and> \<not> inputBackwards s' \<and> \<not> inputLeft s'
    \<and> \<not> inputAction s' \<and> playerAccerlationX s' = 0 \<and> playerAccerlationZ s' = 0
    \<and> playerX s' = 7 \<and> playerZ s' = 1 \<and> itemState s' = itemState s"
proof -
  let ?b = "before_collision t s"
  note b = before_collision_idle[OF assms(1-4,6,7), of t]
  have p: "update_position gameMap ?b
      = Inr (?b\<lparr>playerX := 7, playerZ := 1,
               playerY := MAX_macro 0 (playerY ?b + playerAccerlationY ?b)\<rparr>)"
    using b assms spawn_lookup by (simp add: update_position_def Let_def)
  show ?thesis
    using b assms by (simp add: Game_onUpdate_def p update_interaction_def)
qed

text \<open>The steps of 30 ms after loading, with no other event.\<close>

lemma fade_in_steps:
  "\<exists>s. main gameMap t0 (map (\<lambda>i. Update (t0 + 30 * int i)) [1..<Suc n]) = Inr s
     \<and> \<not> inputForward s \<and> \<not> inputRight s \<and> \<not> inputBackwards s \<and> \<not> inputLeft s
     \<and> \<not> inputAction s \<and> playerAccerlationX s = 0 \<and> playerAccerlationZ s = 0
     \<and> playerX s = 7 \<and> playerZ s = 1 \<and> itemState s = Initial \<and> \<not> mainLoopLeft s
     \<and> lastUpdateTime s = t0 + 30 * int n"
proof (induction n)
  case 0
  show ?case
    by (simp add: main_def Game_onLoad_gameMap) (simp add: initialGame_def)
next
  case (Suc n)
  then obtain s where s: "main gameMap t0 (map (\<lambda>i. Update (t0 + 30 * int i)) [1..<Suc n]) = Inr s"
    and j: "\<not> inputForward s" "\<not> inputRight s" "\<not> inputBackwards s" "\<not> inputLeft s"
     "\<not> inputAction s" "playerAccerlationX s = 0" "playerAccerlationZ s = 0"
     "playerX s = 7" "playerZ s = 1"
    and i: "itemState s = Initial" "\<not> mainLoopLeft s" "lastUpdateTime s = t0 + 30 * int n"
    by blast
  from idle_step[OF j, of "t0 + 30 * int (Suc n)"] obtain s' where
    u: "Game_onUpdate gameMap (t0 + 30 * int (Suc n)) s = Inr s'"
    and j': "\<not> inputForward s'" "\<not> inputRight s'" "\<not> inputBackwards s'" "\<not> inputLeft s'"
     "\<not> inputAction s'" "playerAccerlationX s' = 0" "playerAccerlationZ s' = 0"
     "playerX s' = 7" "playerZ s' = 1" "itemState s' = itemState s"
    by blast
  have m: "\<not> mainLoopLeft s'"
    using Game_onUpdate_frame(2)[OF u] i by (simp add: update_brightness_def)
  have "main gameMap t0 (map (\<lambda>i. Update (t0 + 30 * int i)) [1..<Suc (Suc n)]) = Inr s'"
  proof -
    have "map (\<lambda>i. Update (t0 + 30 * int i)) [1..<Suc (Suc n)]
      = map (\<lambda>i. Update (t0 + 30 * int i)) [1..<Suc n] @ [Update (t0 + 30 * int (Suc n))]"
      by simp
    moreover obtain s0 where l: "Game_onLoad gameMap t0 initialGame = Inr s0"
      by (simp add: Game_onLoad_gameMap)
    ultimately show ?thesis
      using s u i(2) by (simp only: main_def l sum.case run_append) simp
  qed
  with j' m i Game_onUpdate_frame(3)[OF u] show ?case by auto
qed

lemma nonnegative_deltas_steps:
  "t \<le> t0 + 30 * int a \<Longrightarrow>
   nonnegative_deltas t (map (\<lambda>i. Update (t0 + 30 * int i)) [a..<a + k])"
proof (induction k arbitrary: a t)
  case 0
  then show ?case by simp
next
  case (Suc k)
  have "[a..<a + Suc k] = a # [Suc a..<Suc a + k]"
    by (simp add: upt_rec)
  moreover have "nonnegative_deltas (t0 + 30 * int a)
      (map (\<lambda>i. Update (t0 + 30 * int i)) [Suc a..<Suc a + k])"
    by (rule Suc.IH) simp
  ultimately show ?case using Suc.prems by simp
qed

text \<open>
  C9. The claim: 34 steps of 0.03 s from brightness 0 in state \<open>Initial\<close> give a
  brightness of at least 1. Each step adds \<open>FADEOUT_SPEED * deltaSeconds = 0.015\<close>, so
  after 34 steps (1.02 s) the brightness is 0.51.
\<close>

theorem fade_in_34_ticks:
  "main gameMap 0
     (map Update [30, 60, 90, 120, 150, 180, 210, 240, 270, 300, 330, 360, 390, 420, 450,
        480, 510, 540, 570, 600, 630, 660, 690, 720, 750, 780, 810, 840, 870, 900, 930,
        960, 990, 1020])
   = Inr (initialGame\<lparr>isLoaded := True, playerX := 7, playerZ := 1, itemRotationY := 459 / 10,
            gameBrightness := 51 / 100, lastUpdateTime := 1020, currentTimeMs := 20\<rparr>)"
  apply (simp only: main_def Game_onLoad_gameMap sum.case)
  apply (simp add: tick_defs initialGame_def gameMap_def)
  done

text \<open>
  C9, amended. After \<open>n\<close> steps of 0.03 s from the start of the game (brightness 0,
  state \<open>Initial\<close>, no other event) the brightness is \<open>min 1 (0.015 * n)\<close>: 0.51 after 34
  steps, and at least 1 exactly from the 67th step on.
\<close>

theorem fade_in_after_ticks:
  "map_sum id gameBrightness (main gameMap t0 (map (\<lambda>i. Update (t0 + 30 * int i)) [1..<Suc n]))
     = Inr (MIN_macro 1 (15 / 1000 * real n))
   \<and> (1 \<le> MIN_macro 1 (15 / 1000 * real n) \<longleftrightarrow> 67 \<le> n)"
proof -
  let ?es = "map (\<lambda>i. Update (t0 + 30 * int i)) [1..<Suc n]"
  from fade_in_steps[of t0 n] obtain s where s: "main gameMap t0 ?es = Inr s"
    and i: "itemState s = Initial" "lastUpdateTime s = t0 + 30 * int n"
    by blast
  have nn: "nonnegative_deltas t0 ?es"
    using nonnegative_deltas_steps[of t0 t0 1 n] by simp
  have "gameBrightness s = MIN_macro 1 (FADEOUT_SPEED * (of_int (lastUpdateTime s - t0) / 1000))"
    using main_brightness(3)[OF nn s] i by simp
  also have "\<dots> = MIN_macro 1 (15 / 1000 * real n)"
    using i by (simp add: FADEOUT_SPEED_def)
  finally have "gameBrightness s = MIN_macro 1 (15 / 1000 * real n)" .
  moreover have "(1 \<le> MIN_macro 1 (15 / 1000 * real n)) = (67 \<le> n)"
  proof -
    have "(1000 \<le> 15 * real n) = (67 \<le> n)"
    proof
      assume "1000 \<le> 15 * real n"
      then have "1000 \<le> 15 * n" by (metis of_nat_le_iff of_nat_mult of_nat_numeral)
      then show "67 \<le> n" by linarith
    next
      assume "67 \<le> n"
      then have "67 \<le> real n" by simp
      then show "1000 \<le> 15 * real n" by linarith
    qed
    then show ?thesis by (auto simp: MIN_macro_def)
  qed
  ultimately show ?thesis using s by simp
qed

subsection \<open>Normalisation of the input\<close>

lemma newAxisAccerlation_diagonal:
  assumes "inputForward s" "inputRight s" "\<not> inputBackwards s" "\<not> inputLeft s"
  shows "newAxisAccerlation s = (1 / sqrt 2, 1 / sqrt 2)"
proof -
  have "1 < sqrt 2" by simp
  then show ?thesis using assms
    by (simp add: newAxisAccerlation_def Let_def)
qed

lemma newAxisAccerlation_forward:
  assumes "inputForward s" "\<not> inputRight s" "\<not> inputBackwards s" "\<not> inputLeft s"
  shows "newAxisAccerlation s = (0, 1)"
  using assms by (simp add: newAxisAccerlation_def Let_def)

lemma rotation_norm:
  fixes a b r :: real
  shows "(a * cos r - b * sin r)\<^sup>2 + (b * cos r + a * sin r)\<^sup>2 = a\<^sup>2 + b\<^sup>2"
proof -
  have "(a * cos r - b * sin r)\<^sup>2 + (b * cos r + a * sin r)\<^sup>2
      = (a\<^sup>2 + b\<^sup>2) * ((sin r)\<^sup>2 + (cos r)\<^sup>2)"
    by (simp add: power2_eq_square) algebra
  also have "\<dots> = a\<^sup>2 + b\<^sup>2"
    by (simp only: sin_cos_squared_add mult_1_right)
  finally show ?thesis .
qed

lemma newAccerlation_norm:
  "(fst (newAccerlation s))\<^sup>2 + (snd (newAccerlation s))\<^sup>2
     = (fst (newAxisAccerlation s))\<^sup>2 + (snd (newAxisAccerlation s))\<^sup>2"
  by (simp add: newAccerlation_def Let_def rotation_norm split: prod.splits)


text \<open>
  C8. For every rotation of the player and every \<open>deltaSeconds\<close>, the horizontal
  acceleration that a step adds with forward and right held has the same magnitude as
  the one it adds with only forward held: \<open>|deltaSeconds| * PLAYER_MAX_SPEED\<close>, not
  \<open>sqrt 2\<close> times as much.
\<close>

theorem diagonal_input_normalised:
  assumes "inputForward s" "inputRight s" "\<not> inputBackwards s" "\<not> inputLeft s"
    and "inputForward s'" "\<not> inputRight s'" "\<not> inputBackwards s'" "\<not> inputLeft s'"
  shows "sqrt ((playerAccerlationX (update_accerlation dt s) - playerAccerlationX s)\<^sup>2
              + (playerAccerlationZ (update_accerlation dt s) - playerAccerlationZ s)\<^sup>2)
           = \<bar>dt\<bar> * PLAYER_MAX_SPEED
       \<and> sqrt ((playerAccerlationX (update_accerlation dt s') - playerAccerlationX s')\<^sup>2
              + (playerAccerlationZ (update_accerlation dt s') - playerAccerlationZ s')\<^sup>2)
           = \<bar>dt\<bar> * PLAYER_MAX_SPEED"
proof -
  have n: "sqrt ((playerAccerlationX (update_accerlation dt u) - playerAccerlationX u)\<^sup>2
              + (playerAccerlationZ (update_accerlation dt u) - playerAccerlationZ u)\<^sup>2)
           = \<bar>dt\<bar> * PLAYER_MAX_SPEED"
    if u: "(fst (newAxisAccerlation u))\<^sup>2 + (snd (newAxisAccerlation u))\<^sup>2 = 1" for u
  proof -
    have "(playerAccerlationX (update_accerlation dt u) - playerAccerlationX u)\<^sup>2
              + (playerAccerlationZ (update_accerlation dt u) - playerAccerlationZ u)\<^sup>2
        = ((fst (newAccerlation u))\<^sup>2 + (snd (newAccerlation u))\<^sup>2) * (dt * PLAYER_MAX_SPEED)\<^sup>2"
      by (simp add: power_mult_distrib algebra_simps)
    also have "\<dots> = (dt * PLAYER_MAX_SPEED)\<^sup>2"
      by (simp only: newAccerlation_norm u mult_1)
    finally show ?thesis
      by (simp add: abs_mult PLAYER_MAX_SPEED_def)
  qed
  have "(fst (newAxisAccerlation s))\<^sup>2 + (snd (newAxisAccerlation s))\<^sup>2 = 1"
    by (simp add: newAxisAccerlation_diagonal[OF assms(1-4)] power_divide)
  moreover have "(fst (newAxisAccerlation s'))\<^sup>2 + (snd (newAxisAccerlation s'))\<^sup>2 = 1"
    by (simp add: newAxisAccerlation_forward[OF assms(5-8)])
  ultimately show ?thesis using n by blast
qed

theorem diagonal_input_normalised_witness:
  "sqrt ((playerAccerlationX (update_accerlation (3 / 100)
             (initialGame\<lparr>inputForward := True, inputRight := True\<rparr>)) - 0)\<^sup>2
       + (playerAccerlationZ (update_accerlation (3 / 100)
             (initialGame\<lparr>inputForward := True, inputRight := True\<rparr>)) - 0)\<^sup>2)
     = \<bar>3 / 100\<bar> * PLAYER_MAX_SPEED
   \<and> sqrt ((playerAccerlationX (update_accerlation (3 / 100)
             (initialGame\<lparr>inputForward := True\<rparr>)) - 0)\<^sup>2
       + (playerAccerlationZ (update_accerlation (3 / 100)
             (initialGame\<lparr>inputForward := True\<rparr>)) - 0)\<^sup>2)
     = \<bar>3 / 100\<bar> * PLAYER_MAX_SPEED"
  using diagonal_input_normalised [of "initialGame\<lparr>inputForward := True, inputRight := True\<rparr>"
      "initialGame\<lparr>inputForward := True\<rparr>" "3 / 100"]
  by (simp add: initialGame_def)

end
